theory Spec2Isabelle
  imports Main "HOL-Library.AList"
begin

section \<open>The faction registry of src/server/handlers.ts\<close>

text \<open>
  The module keeps two module-level variables, \<open>factions\<close> (an object used as a
  dictionary from faction identifier to faction record) and \<open>callbacks\<close> (an array of
  change subscribers), and talks to four collaborators: the document database \<open>db\<close>,
  the player getter, the live character documents and the currency API. The embedding
  threads one record, \<open>World\<close>, through every operation; it holds the two module
  variables and the state of the collaborators the operations read or write.

  Conventions. A JavaScript \<open>number\<close> is an \<open>int\<close> (the identifiers and balances
  the module handles are whole numbers). A JavaScript string is the \<open>string\<close> of the
  bytes of its UTF-8 form, which is also how a string literal of this theory is read.
  The module drops U+0020 from a string, looks for one string as a contiguous piece of
  another and compares strings; on well-formed strings these mean the same on the UTF-8
  form (the byte 0x20 only stands for U+0020, and a piece found among the bytes starts
  and ends at character boundaries). \<open>String.prototype.toLowerCase\<close>, whose table is
  the runtime's, is a parameter.
  A field called \<open>_id\<close> in the source is called \<open>faction_id\<close> or \<open>character_doc_id\<close>
  here, because an Isabelle name cannot start with an underscore; the field \<open>id\<close> of a
  member or a character is \<open>member_id\<close> or \<open>character_id\<close>, because \<open>id\<close> is the
  identity function of HOL. A field that may be \<open>undefined\<close> or \<open>null\<close> is an
  \<open>option\<close>.
\<close>

subsection \<open>Data: the interfaces the module imports\<close>

text \<open>A member entry, as \<open>create\<close> writes it: \<open>{id, name, duty, gradeId, isOwner}\<close>.\<close>

record Member =
  member_id :: int
  member_name :: string
  duty :: bool
  member_gradeId :: string
  isOwner :: bool

text \<open>
  A grade. The module only touches \<open>gradeId\<close>; the rest of a rank of the template
  is carried along untouched, as one opaque value \<open>rank\<close>.
\<close>

record Grades =
  gradeId :: string
  rank :: string

record Vehicle =
  vehicleId :: string

record Factions =
  faction_id :: "string option"
  factionName :: string
  bank :: int
  members :: "(int \<times> Member) list"
  grades :: "Grades list"
  locations :: "(string \<times> string) list"
  vehicles :: "Vehicle list"

text \<open>
  The argument of \<open>create\<close>. A caller may leave \<open>factionName\<close> out (the source
  tests \<open>!_faction.factionName\<close>) and may leave \<open>bank\<close> out (the source writes
  \<open>_faction.bank ?? 0\<close>).
\<close>

record FactionCore =
  core_factionName :: "string option"
  core_bank :: "int option"

text \<open>
  A character document of the collection \<open>Characters\<close>: \<open>_id\<close> is the document
  identifier (a string), \<open>id\<close> the character number. \<open>faction\<close> is \<open>None\<close> when
  the field is \<open>null\<close> or missing.
\<close>

record Character =
  character_doc_id :: string
  character_id :: int
  character_name :: string
  character_faction :: "string option"
  character_bank :: int

text \<open>
  A connected player: its live character document, whether
  \<open>useCharacter(player).isValid()\<close> holds, and the \<open>bank\<close> balance the currency
  API keeps for it.
\<close>

record Player =
  character_document :: Character
  isValid :: bool
  currency_bank :: int

text \<open>
  A spawned vehicle of \<open>alt.Vehicle.all\<close>: \<open>id_toString\<close> is \<open>v.id.toString()\<close>,
  the only form in which the module reads the identifier.
\<close>

record AltVehicle =
  id_toString :: string
  valid :: bool

subsection \<open>Objects with computed keys\<close>

text \<open>
  \<open>update\<close> builds the object \<open>{ _id, [fieldName]: partialObject[fieldName] }\<close> with
  a key only known at run time, so the documents of the collection \<open>Factions\<close> and the
  \<open>Partial<Factions>\<close> argument are objects in the JavaScript sense: a list of
  key/value pairs in insertion order, with unique keys. \<open>fval\<close> is the type of the values
  such an object holds or reads: \<open>VInherited name\<close> is what \<open>Object.prototype\<close>
  holds under \<open>name\<close> (a function, or for \<open>__proto__\<close> the prototype itself).
\<close>

datatype fval =
    VUndefined
  | VInherited string
  | VStr string
  | VNum int
  | VMembers "(int \<times> Member) list"
  | VGrades "Grades list"
  | VLocations "(string \<times> string) list"
  | VVehicles "Vehicle list"

type_synonym object = "(string \<times> fval) list"

text \<open>
  The field of a stored document, as the adapter reads it: the document's own fields
  only; a missing field is \<open>undefined\<close>.
\<close>

definition own_field :: "object \<Rightarrow> string \<Rightarrow> fval" where
  "own_field obj key = (case map_of obj key of None \<Rightarrow> VUndefined | Some v \<Rightarrow> v)"

text \<open>The names of the properties of \<open>Object.prototype\<close>.\<close>

definition Object_prototype :: "string list" where
  "Object_prototype =
     [''constructor'', ''__defineGetter__'', ''__defineSetter__'', ''hasOwnProperty'',
      ''__lookupGetter__'', ''__lookupSetter__'', ''isPrototypeOf'', ''propertyIsEnumerable'',
      ''toString'', ''valueOf'', ''__proto__'', ''toLocaleString'']"

text \<open>
  \<open>obj[key]\<close> in the program, on an object literal: the object's own key if it has
  it, else what \<open>Object.prototype\<close> holds under that name, else \<open>undefined\<close>.
\<close>

definition obj_get :: "object \<Rightarrow> string \<Rightarrow> fval" where
  "obj_get obj key =
     (case map_of obj key of
        Some v \<Rightarrow> v
      | None \<Rightarrow> if key \<in> set Object_prototype then VInherited key else VUndefined)"

text \<open>
  \<open>obj[key] = v\<close>, and a later key of an object literal: the value of an existing key
  is replaced where it stands, a new key is added at the end. This is
  \<^const>\<open>AList.update\<close>.
\<close>

definition obj_set :: "string \<Rightarrow> fval \<Rightarrow> object \<Rightarrow> object" where
  "obj_set key v obj = AList.update key v obj"

text \<open>The object a faction record is, seen as key/value pairs (without \<open>_id\<close>).\<close>

definition fields_of :: "Factions \<Rightarrow> object" where
  "fields_of f =
     [(''factionName'', VStr (factionName f)),
      (''bank'', VNum (bank f)),
      (''members'', VMembers (members f)),
      (''grades'', VGrades (grades f)),
      (''locations'', VLocations (locations f)),
      (''vehicles'', VVehicles (vehicles f))]"

text \<open>
  \<open>db.getMany<Factions>\<close> reads a document at the type \<open>Factions\<close>. A document
  whose fields do not have the declared types has no reading at that type (\<open>None\<close>).
\<close>

fun as_string :: "fval \<Rightarrow> string option" where
  "as_string (VStr s) = Some s"
| "as_string _ = None"

fun as_number :: "fval \<Rightarrow> int option" where
  "as_number (VNum n) = Some n"
| "as_number _ = None"

fun as_members :: "fval \<Rightarrow> (int \<times> Member) list option" where
  "as_members (VMembers ms) = Some ms"
| "as_members _ = None"

fun as_grades :: "fval \<Rightarrow> Grades list option" where
  "as_grades (VGrades gs) = Some gs"
| "as_grades _ = None"

fun as_locations :: "fval \<Rightarrow> (string \<times> string) list option" where
  "as_locations (VLocations ls) = Some ls"
| "as_locations _ = None"

fun as_vehicles :: "fval \<Rightarrow> Vehicle list option" where
  "as_vehicles (VVehicles vs) = Some vs"
| "as_vehicles _ = None"

definition as_Factions :: "object \<Rightarrow> Factions option" where
  "as_Factions d =
     (case as_string (own_field d ''_id'') of None \<Rightarrow> None | Some i \<Rightarrow>
      case as_string (own_field d ''factionName'') of None \<Rightarrow> None | Some n \<Rightarrow>
      case as_number (own_field d ''bank'') of None \<Rightarrow> None | Some b \<Rightarrow>
      case as_members (own_field d ''members'') of None \<Rightarrow> None | Some ms \<Rightarrow>
      case as_grades (own_field d ''grades'') of None \<Rightarrow> None | Some gs \<Rightarrow>
      case as_locations (own_field d ''locations'') of None \<Rightarrow> None | Some ls \<Rightarrow>
      case as_vehicles (own_field d ''vehicles'') of None \<Rightarrow> None | Some vs \<Rightarrow>
        Some \<lparr>faction_id = Some i, factionName = n, bank = b, members = ms,
              grades = gs, locations = ls, vehicles = vs\<rparr>)"

subsection \<open>The state\<close>

text \<open>
  A subscriber is a function of the faction identifier and the field name; all the
  module sees of a call is whether it returns or throws.
\<close>

datatype completion = Returns | Throws

type_synonym FactionChangeCallback = "string \<Rightarrow> string \<Rightarrow> completion"

text \<open>
  \<open>factions\<close> and \<open>callbacks\<close> are the module's variables. \<open>factions\<close> is a list
  of pairs in the iteration order of \<open>Object.values\<close>, which for identifiers that are
  not array indices is the order of first insertion (an identifier is not the name of a
  property of \<open>Object.prototype\<close> either). \<open>db_Factions\<close>, \<open>db_Characters\<close>
  and \<open>db_Vehicles\<close> are the three collections (of \<open>Vehicles\<close> only the document
  identifiers matter here). \<open>players\<close> are the connected players, \<open>altVehicles\<close> is
  \<open>alt.Vehicle.all\<close>. \<open>calls\<close> records every subscriber invocation: the position of
  the subscriber in \<open>callbacks\<close> and the two arguments it was given.
\<close>

record World =
  factions :: "(string \<times> Factions) list"
  callbacks :: "FactionChangeCallback list"
  db_Factions :: "object list"
  db_Characters :: "Character list"
  db_Vehicles :: "string list"
  players :: "Player list"
  altVehicles :: "AltVehicle list"
  calls :: "(nat \<times> string \<times> string) list"

text \<open>What every operation returns: \<open>{ status, response }\<close>.\<close>

record Response =
  status :: bool
  response :: string

subsection \<open>Strings\<close>

text \<open>\<open>s.replace(/ /g, '')\<close>: every space character (U+0020) is dropped, nothing else.\<close>

definition replace_spaces :: "string \<Rightarrow> string" where
  "replace_spaces s = filter (\<lambda>c. c \<noteq> CHR '' '') s"

text \<open>
  \<open>String.prototype.toLowerCase\<close> is a parameter of \<open>findFactionByName\<close> below.
  On a string of ASCII characters it is \<open>toLowerCase_ascii\<close>: the letters A to Z are
  lowered and nothing else changes.
\<close>

definition toLowerCase_ascii_char :: "char \<Rightarrow> char" where
  "toLowerCase_ascii_char c =
     (case map_of (zip ''ABCDEFGHIJKLMNOPQRSTUVWXYZ'' ''abcdefghijklmnopqrstuvwxyz'') c of
        Some l \<Rightarrow> l
      | None \<Rightarrow> c)"

definition toLowerCase_ascii :: "string \<Rightarrow> string" where
  "toLowerCase_ascii s = map toLowerCase_ascii_char s"

text \<open>\<open>s.includes(q)\<close>: \<open>q\<close> occurs in \<open>s\<close> as a contiguous piece.\<close>

fun str_includes :: "'a list \<Rightarrow> 'a list \<Rightarrow> bool" where
  "str_includes [] q = (q = [])"
| "str_includes (c # s) q = (take (length q) (c # s) = q \<or> str_includes s q)"

text \<open>The decimal form of a number, for the \<open>${characterOwnerID}\<close> of a message.\<close>

fun digits :: "nat \<Rightarrow> string" where
  "digits n =
     (if n < 10 then [char_of (48 + n)] else digits (n div 10) @ [char_of (48 + n mod 10)])"

definition toString :: "int \<Rightarrow> string" where
  "toString i = (if i < 0 then CHR ''-'' # digits (nat (- i)) else digits (nat i))"

subsection \<open>The queries: lines 159-178\<close>

text \<open>\<open>findFactionById\<close>: \<open>factions[_id] || null\<close>; a record is never falsy.\<close>

definition findFactionById :: "string \<Rightarrow> World \<Rightarrow> Factions option" where
  "findFactionById i w = map_of (factions w) i"

text \<open>
  \<open>findFactionByName\<close>. \<open>toLowerCase\<close> is the runtime's
  \<open>String.prototype.toLowerCase\<close>.
\<close>

definition findFactionByName :: "(string \<Rightarrow> string) \<Rightarrow> string \<Rightarrow> World \<Rightarrow> Factions option" where
  "findFactionByName toLowerCase nameOrPartialName w =
     (let normalizedQuery = toLowerCase (replace_spaces nameOrPartialName)
      in find (\<lambda>faction.
                 str_includes (toLowerCase (replace_spaces (factionName faction))) normalizedQuery)
              (map snd (factions w)))"

definition getAllFactions :: "World \<Rightarrow> Factions list" where
  "getAllFactions w = map snd (factions w)"

definition onUpdate :: "FactionChangeCallback \<Rightarrow> World \<Rightarrow> World" where
  "onUpdate callback w = w\<lparr>callbacks := callbacks w @ [callback]\<rparr>"

subsection \<open>The collaborators\<close>

text \<open>
  Modelled from the spec: the persistence adapter \<open>db\<close> of the framework, which is
  not part of the repository. Section 6 of the specification gives its contract:
  \<open>getAll(collection)\<close>, \<open>getMany(filter, collection)\<close>,
  \<open>create(record, collection) -> identifier\<close>, \<open>update(patch-with-id, collection)\<close>
  and \<open>deleteDocument(id, collection)\<close>. A document is addressed by its \<open>_id\<close>, a
  string; a filter selects the documents that have every field of the filter with the
  same value, in the order of the collection.
\<close>

definition db_getAll_Factions :: "World \<Rightarrow> object list" where
  "db_getAll_Factions w = db_Factions w"

definition db_getMany_Factions :: "object \<Rightarrow> World \<Rightarrow> object list" where
  "db_getMany_Factions flt w =
     filter (\<lambda>d. list_all (\<lambda>(key, v). own_field d key = v) flt) (db_Factions w)"

text \<open>
  Modelled from the spec: \<open>db.create\<close>. \<open>inserted\<close> is the adapter's answer at this
  call: \<open>None\<close> when the insertion fails (nothing is stored and the caller gets
  nothing), \<open>Some i\<close> when the document is stored under the fresh identifier \<open>i\<close>. An
  identifier is never the empty string.
\<close>

definition db_create_Factions :: "string option \<Rightarrow> object \<Rightarrow> World \<Rightarrow> string option \<times> World" where
  "db_create_Factions inserted doc w =
     (case inserted of
        None \<Rightarrow> (None, w)
      | Some i \<Rightarrow>
          if i = [] then (None, w)
          else (Some i, w\<lparr>db_Factions := db_Factions w @ [(''_id'', VStr i) # doc]\<rparr>))"

text \<open>
  Modelled from the spec: the write of \<open>db.update\<close> on \<open>Factions\<close>, when the
  adapter stores the patch. The document whose \<open>_id\<close> is the string under the key
  \<open>_id\<close> of the patch gets every other field of the patch; a patch whose \<open>_id\<close> is
  not a string addresses no document.
\<close>

definition apply_patch :: "object \<Rightarrow> object \<Rightarrow> object" where
  "apply_patch patch d = foldl (\<lambda>d' (key, v). obj_set key v d') d (AList.delete ''_id'' patch)"

definition db_update_Factions :: "object \<Rightarrow> World \<Rightarrow> World" where
  "db_update_Factions patch w =
     (case own_field patch ''_id'' of
        VStr i \<Rightarrow>
          w\<lparr>db_Factions :=
              map (\<lambda>d. if own_field d ''_id'' = VStr i then apply_patch patch d else d)
                (db_Factions w)\<rparr>
      | _ \<Rightarrow> w)"

text \<open>
  Modelled from the spec: \<open>db.getMany\<close> and the write of \<open>db.update\<close> on
  \<open>Characters\<close>, when the adapter stores the patch. The module filters characters by
  \<open>{ id }\<close> and by \<open>{ faction }\<close>. A patch is the value
  under its key \<open>_id\<close> (a string in \<open>create\<close>, a number in \<open>remove\<close>) and the fields
  it sets; a document's \<open>_id\<close> is a string, so a key that is not a string addresses no
  document.
\<close>

datatype Character_filter = By_id int | By_faction "string option"

fun matches_filter :: "Character_filter \<Rightarrow> Character \<Rightarrow> bool" where
  "matches_filter (By_id n) c = (character_id c = n)"
| "matches_filter (By_faction f) c = (character_faction c = f)"

definition db_getMany_Characters :: "Character_filter \<Rightarrow> World \<Rightarrow> Character list" where
  "db_getMany_Characters flt w = filter (matches_filter flt) (db_Characters w)"

definition db_update_Characters :: "fval \<Rightarrow> (Character \<Rightarrow> Character) \<Rightarrow> World \<Rightarrow> World" where
  "db_update_Characters key set_fields w =
     w\<lparr>db_Characters :=
         map (\<lambda>c. if VStr (character_doc_id c) = key then set_fields c else c)
           (db_Characters w)\<rparr>"

text \<open>
  Modelled from the spec: one call of \<open>db.update\<close>, of which section 6 says
  \<open>update(patch-with-id, collection) -> success/failure\<close>. What the adapter does at a
  call is a parameter: it stores the patch and answers success, it stores nothing and
  answers failure, or it throws and stores nothing. \<open>write\<close> is the write of the call
  when the patch is stored.
\<close>

datatype db_answer = Db_stores | Db_fails | Db_throws

datatype error = TypeError | Not_Factions | Rejected

definition db_update :: "db_answer \<Rightarrow> (World \<Rightarrow> World) \<Rightarrow> World \<Rightarrow> (error + bool) \<times> World" where
  "db_update answer write w =
     (case answer of
        Db_stores \<Rightarrow> (Inr True, write w)
      | Db_fails \<Rightarrow> (Inr False, w)
      | Db_throws \<Rightarrow> (Inl Rejected, w))"

definition db_deleteDocument_Vehicles :: "string \<Rightarrow> World \<Rightarrow> World" where
  "db_deleteDocument_Vehicles i w = w\<lparr>db_Vehicles := removeAll i (db_Vehicles w)\<rparr>"

text \<open>
  The first element that satisfies \<open>P\<close> is replaced by its image under \<open>f\<close>: the
  model of a method called on the object that \<open>find\<close> or the getter returned.
\<close>

fun update_first :: "('a \<Rightarrow> bool) \<Rightarrow> ('a \<Rightarrow> 'a) \<Rightarrow> 'a list \<Rightarrow> 'a list" where
  "update_first P f [] = []"
| "update_first P f (x # xs) = (if P x then f x # xs else x # update_first P f xs)"

text \<open>\<open>getter.byCharacter(_id)\<close>: the connected player with that character, if any.\<close>

definition byCharacter :: "string \<Rightarrow> World \<Rightarrow> Player option" where
  "byCharacter doc_id w = find (\<lambda>p. character_doc_id (character_document p) = doc_id) (players w)"

text \<open>
  Modelled from the spec: \<open>useCharacter(player).set('faction', v)\<close> of the framework.
  It stores the field in the player's live document and saves it in the collection
  \<open>Characters\<close>, under the document's \<open>_id\<close>.
\<close>

definition character_set_faction :: "string \<Rightarrow> string \<Rightarrow> World \<Rightarrow> World" where
  "character_set_faction doc_id v w =
     db_update_Characters (VStr doc_id) (\<lambda>c. c\<lparr>character_faction := Some v\<rparr>)
       (w\<lparr>players :=
            update_first (\<lambda>p. character_doc_id (character_document p) = doc_id)
              (\<lambda>p. p\<lparr>character_document := (character_document p)\<lparr>character_faction := Some v\<rparr>\<rparr>)
              (players w)\<rparr>)"

text \<open>
  Modelled from the spec: \<open>useCurrency(player, 'Character').add('bank', amount)\<close> of
  the currency API: the player's \<open>bank\<close> balance grows by \<open>amount\<close>.
\<close>

definition currency_add_bank :: "string \<Rightarrow> int \<Rightarrow> World \<Rightarrow> World" where
  "currency_add_bank doc_id amount w =
     w\<lparr>players :=
         update_first (\<lambda>p. character_doc_id (character_document p) = doc_id)
           (\<lambda>p. p\<lparr>currency_bank := currency_bank p + amount\<rparr>)
           (players w)\<rparr>"

subsection \<open>init: lines 21-40\<close>

text \<open>
  \<open>InternalFunctions.update(faction)\<close> with the key read from the record, as the
  source does: \<open>factions[faction._id as string] = faction\<close>. An \<open>undefined\<close> key is
  the property name \<open>undefined\<close>.
\<close>

definition InternalFunctions_update :: "Factions \<Rightarrow> World \<Rightarrow> World" where
  "InternalFunctions_update faction w =
     w\<lparr>factions :=
         AList.update (case faction_id faction of Some key \<Rightarrow> key | None \<Rightarrow> ''undefined'')
           faction (factions w)\<rparr>"

text \<open>
  The loop of \<open>init\<close> over \<open>factionList\<close>. A document that cannot be read at the
  type \<open>Factions\<close> stops the model with \<open>Not_Factions\<close>: the store of the model holds
  records of that type only.
\<close>

fun init_loop :: "object list \<Rightarrow> World \<Rightarrow> error + World" where
  "init_loop [] w = Inr w"
| "init_loop (d # factionList) w =
     (case db_getMany_Factions [(''_id'', obj_get d ''_id'')] w of
        [] \<Rightarrow> init_loop factionList w
      | fullFaction # _ \<Rightarrow>
          (case as_Factions fullFaction of
             None \<Rightarrow> Inl Not_Factions
           | Some faction \<Rightarrow> init_loop factionList (InternalFunctions_update faction w)))"

definition init :: "World \<Rightarrow> error + World" where
  "init w =
     (let factionList = db_getAll_Factions w
      in if length factionList = 0 then Inr w else init_loop factionList w)"

subsection \<open>create: lines 43-99\<close>

text \<open>\<open>character.faction\<close> as a condition: \<open>null\<close>, \<open>undefined\<close> and \<open>''\<close> are falsy.\<close>

definition truthy :: "string option \<Rightarrow> bool" where
  "truthy v = (case v of None \<Rightarrow> False | Some s \<Rightarrow> s \<noteq> [])"

definition failure :: "string \<Rightarrow> Response" where
  "failure msg = \<lparr>status = False, response = msg\<rparr>"

definition success :: "string \<Rightarrow> Response" where
  "success msg = \<lparr>status = True, response = msg\<rparr>"

text \<open>
  \<open>DefaultRanks\<close> (of \<open>shared/defaultData.js\<close>) and \<open>sha256Random\<close> (of the
  framework) are parameters. \<open>sha256Random n rank\<close> is the result of the \<open>n\<close>-th call
  of this \<open>create\<close>, made on the serialised \<open>rank\<close>; the function is random, so the
  result may depend on \<open>n\<close>.
\<close>

definition clone_ranks :: "(nat \<Rightarrow> Grades \<Rightarrow> string) \<Rightarrow> Grades list \<Rightarrow> Grades list" where
  "clone_ranks sha256Random DefaultRanks =
     map (\<lambda>(n, rank). rank\<lparr>gradeId := sha256Random n rank\<rparr>) (enumerate 0 DefaultRanks)"

text \<open>
  The object literal of lines 64-79, before the adapter gives it an \<open>_id\<close>.
  \<open>firstRank\<close> is \<open>defaultRanks[0]\<close>.
\<close>

definition new_faction :: "int \<Rightarrow> Character \<Rightarrow> FactionCore \<Rightarrow> Grades \<Rightarrow> Grades list \<Rightarrow> Factions" where
  "new_faction characterOwnerID character core firstRank defaultRanks =
     \<lparr>faction_id = None,
      factionName = the (core_factionName core),
      bank = (case core_bank core of None \<Rightarrow> 0 | Some b \<Rightarrow> b),
      members =
        [(characterOwnerID,
          \<lparr>member_id = characterOwnerID,
           member_name = character_name character,
           duty = True,
           member_gradeId = gradeId firstRank,
           isOwner = True\<rparr>)],
      grades = defaultRanks,
      locations = [],
      vehicles = []\<rparr>"

text \<open>
  \<open>create\<close>. \<open>inserted\<close> is the answer of \<open>db.create\<close> at line 86 and
  \<open>character_update\<close> is what \<open>db.update\<close> does at line 96. Reading
  \<open>defaultRanks[0].gradeId\<close> of an empty template throws a \<open>TypeError\<close>. Nothing
  in \<open>create\<close> catches an exception: when \<open>db.update\<close> throws at line 96 the
  call is rejected after the record has been stored and put into the registry. The
  answer of \<open>db.update\<close> is not read.
\<close>

definition create ::
  "Grades list \<Rightarrow> (nat \<Rightarrow> Grades \<Rightarrow> string) \<Rightarrow> string option \<Rightarrow> db_answer \<Rightarrow>
   int \<Rightarrow> FactionCore \<Rightarrow> World \<Rightarrow> (error + Response) \<times> World" where
  "create DefaultRanks sha256Random inserted character_update characterOwnerID core w =
     (if (case core_factionName core of None \<Rightarrow> True | Some n \<Rightarrow> n = [])
      then (Inr (failure ''Cannot create faction, missing faction name.''), w)
      else
        (case db_getMany_Characters (By_id characterOwnerID) w of
           [] \<Rightarrow>
             (Inr (failure (''Could not find a character with identifier: ''
                            @ toString characterOwnerID)), w)
         | character # _ \<Rightarrow>
             if truthy (character_faction character)
             then (Inr (failure ''Character is already in a faction.''), w)
             else
               (let defaultRanks = clone_ranks sha256Random DefaultRanks
                in case defaultRanks of
                     [] \<Rightarrow> (Inl TypeError, w)
                   | firstRank # _ \<Rightarrow>
                       (let faction =
                              new_faction characterOwnerID character core firstRank defaultRanks;
                            existingFactions =
                              db_getMany_Factions
                                [(''factionName'', VStr (the (core_factionName core)))] w
                        in if length existingFactions > 0
                           then (Inr (failure ''Cannot insert faction into database.''), w)
                           else
                             (case db_create_Factions inserted (fields_of faction) w of
                                (document, w1) \<Rightarrow>
                                  if (case document of None \<Rightarrow> True | Some i \<Rightarrow> i = [])
                                  then (Inr (failure ''Cannot insert faction into database.''),
                                        w1)
                                  else
                                    (let factionId = the document;
                                         faction' = faction\<lparr>faction_id := Some factionId\<rparr>;
                                         w2 = InternalFunctions_update faction' w1
                                     in case db_update character_update
                                               (db_update_Characters
                                                  (VStr (character_doc_id character))
                                                  (\<lambda>c. c\<lparr>character_faction := Some factionId\<rparr>))
                                               w2 of
                                          (Inl e, w3) \<Rightarrow> (Inl e, w3)
                                        | (Inr _, w3) \<Rightarrow> (Inr (success factionId), w3)))))))"

text \<open>
  The state after lines 86-93 when the adapter has stored the record under
  \<open>factionId\<close>: the document is in the collection and the record, with its
  \<open>_id\<close>, is in the registry. The lemmas about \<open>create\<close> are stated with it.
\<close>

definition founded :: "string \<Rightarrow> Factions \<Rightarrow> World \<Rightarrow> World" where
  "founded factionId faction w =
     InternalFunctions_update (faction\<lparr>faction_id := Some factionId\<rparr>)
       (w\<lparr>db_Factions := db_Factions w @ [(''_id'', VStr factionId) # fields_of faction]\<rparr>)"

subsection \<open>remove: lines 101-141\<close>

text \<open>
  One turn of the loop over the characters that reference the faction. \<open>member\<close> is
  the fetched document; \<open>member.faction = null\<close> changes that fetched copy only and
  leaves no trace in the state. In \<open>remove\<close> the adapter is taken to store every
  patch it is given, which is the case most favourable to what is claimed of
  \<open>remove\<close>.
\<close>

definition remove_member :: "Factions \<Rightarrow> int option \<Rightarrow> Character \<Rightarrow> World \<Rightarrow> World" where
  "remove_member faction ownerIdentifier member w =
     (let xPlayer = byCharacter (character_doc_id member) w
      in if (case xPlayer of None \<Rightarrow> False | Some p \<Rightarrow> isValid p)
         then
           (let w1 = character_set_faction (character_doc_id member) [] w
            in if Some (character_id (character_document (the xPlayer))) = ownerIdentifier
               then currency_add_bank (character_doc_id member) (bank faction) w1
               else w1)
         else if Some (character_id member) = ownerIdentifier
         then db_update_Characters (VNum (the ownerIdentifier))
                (\<lambda>c. c\<lparr>character_bank := character_bank member + bank faction\<rparr>) w
         else w)"

fun remove_members :: "Factions \<Rightarrow> int option \<Rightarrow> Character list \<Rightarrow> World \<Rightarrow> World" where
  "remove_members faction ownerIdentifier [] w = w"
| "remove_members faction ownerIdentifier (member # ms) w =
     remove_members faction ownerIdentifier ms (remove_member faction ownerIdentifier member w)"

text \<open>
  One turn of the loop over \<open>faction.vehicles\<close>: the spawned vehicle, if there is a
  valid one with that identifier, is destroyed (it leaves \<open>alt.Vehicle.all\<close>), and
  the vehicle's document is deleted.
\<close>

definition remove_vehicle :: "Vehicle \<Rightarrow> World \<Rightarrow> World" where
  "remove_vehicle vehicle w =
     (let altVehicle = find (\<lambda>v. valid v \<and> id_toString v = vehicleId vehicle) (altVehicles w);
          w1 = (case altVehicle of
                  None \<Rightarrow> w
                | Some v \<Rightarrow> w\<lparr>altVehicles := remove1 v (altVehicles w)\<rparr>)
      in db_deleteDocument_Vehicles (vehicleId vehicle) w1)"

fun remove_vehicles :: "Vehicle list \<Rightarrow> World \<Rightarrow> World" where
  "remove_vehicles [] w = w"
| "remove_vehicles (vehicle # vs) w = remove_vehicles vs (remove_vehicle vehicle w)"

definition remove :: "string \<Rightarrow> World \<Rightarrow> Response \<times> World" where
  "remove fid w =
     (case map_of (factions w) fid of
        None \<Rightarrow> (failure (''Faction was not found with id: '' @ fid), w)
      | Some faction \<Rightarrow>
          (let w1 = w\<lparr>factions := AList.delete fid (factions w)\<rparr>;
               ownerIdentifier =
                 map_option member_id (find isOwner (map snd (members faction)));
               members' = db_getMany_Characters (By_faction (faction_id faction)) w1;
               w2 = remove_members faction ownerIdentifier members' w1;
               w3 = remove_vehicles (vehicles faction) w2
           in (success ''Deleted faction successfully'', w3)))"

subsection \<open>update: lines 143-157\<close>

text \<open>
  \<open>callbacks.forEach((cb) => cb(_id, fieldName))\<close>, from position \<open>n\<close> on. Every
  invocation is recorded; a subscriber that throws ends the loop.
\<close>

fun forEach_callbacks ::
  "nat \<Rightarrow> FactionChangeCallback list \<Rightarrow> string \<Rightarrow> string \<Rightarrow> World \<Rightarrow> completion \<times> World" where
  "forEach_callbacks n [] fid fieldName w = (Returns, w)"
| "forEach_callbacks n (cb # cbs) fid fieldName w =
     (let w1 = w\<lparr>calls := calls w @ [(n, fid, fieldName)]\<rparr>
      in case cb fid fieldName of
           Throws \<Rightarrow> (Throws, w1)
         | Returns \<Rightarrow> forEach_callbacks (Suc n) cbs fid fieldName w1)"

text \<open>
  \<open>update\<close>. \<open>answer\<close> is what \<open>db.update\<close> does at line 150. The \<open>try\<close>
  block catches what \<open>db.update\<close> or a subscriber throws; the answer of
  \<open>db.update\<close> is not read, so an adapter that answers failure is not noticed. The
  patch is the object literal \<open>{ _id, [fieldName]: partialObject[fieldName] }\<close>: the
  computed key comes second, so it replaces \<open>_id\<close> when \<open>fieldName\<close> is \<open>_id\<close>.
\<close>

definition update :: "db_answer \<Rightarrow> string \<Rightarrow> string \<Rightarrow> object \<Rightarrow> World \<Rightarrow> Response \<times> World" where
  "update answer fid fieldName partialObject w =
     (case map_of (factions w) fid of
        None \<Rightarrow> (failure (''Faction was not found with id: '' @ fid), w)
      | Some faction \<Rightarrow>
          (let patch = obj_set fieldName (obj_get partialObject fieldName) [(''_id'', VStr fid)]
           in case db_update answer (db_update_Factions patch) w of
                (Inl e, w1) \<Rightarrow> (failure ''Failed to update faction data.'', w1)
              | (Inr _, w1) \<Rightarrow>
                  (case forEach_callbacks 0 (callbacks w1) fid fieldName w1 of
                     (Returns, w2) \<Rightarrow> (success ''Updated Faction Data'', w2)
                   | (Throws, w2) \<Rightarrow> (failure ''Failed to update faction data.'', w2))))"

subsection \<open>The invariant of the registry store\<close>

text \<open>
  Section 3 of the specification: the keys of the registry store are unique, and each
  key is the \<open>_id\<close> of the record stored under it.
\<close>

definition store_inv :: "(string \<times> Factions) list \<Rightarrow> bool" where
  "store_inv store \<longleftrightarrow>
     distinct (map fst store) \<and> list_all (\<lambda>(key, faction). faction_id faction = Some key) store"

subsection \<open>The specification's matching, for comparison\<close>

text \<open>
  Section 4.1 of the specification describes \<open>findByName\<close> as a "case-insensitive,
  whitespace-stripped substring match". \<open>spec_name_match\<close> follows those words:
  whitespace is the blank, the tabulator, line feed, vertical tab, form feed and
  carriage return. It is not part of the program; it is compared with
  \<open>findFactionByName\<close> below.
\<close>

definition is_whitespace :: "char \<Rightarrow> bool" where
  "is_whitespace c =
     (c \<in> set [CHR '' '', CHR 0x09, CHR 0x0A, CHR 0x0B, CHR 0x0C, CHR 0x0D])"

definition spec_strip_whitespace :: "string \<Rightarrow> string" where
  "spec_strip_whitespace s = filter (\<lambda>c. \<not> is_whitespace c) s"

definition spec_name_match :: "(string \<Rightarrow> string) \<Rightarrow> string \<Rightarrow> string \<Rightarrow> bool" where
  "spec_name_match toLowerCase query name =
     str_includes (toLowerCase (spec_strip_whitespace name))
       (toLowerCase (spec_strip_whitespace query))"

subsection \<open>A small world\<close>

text \<open>
  The faction Red Team with its owner Ann (character 7, offline), Bob (character 8,
  connected) and Cy (character 9, offline), one vehicle, and two subscribers.
\<close>

definition red_team :: Factions where
  "red_team =
     \<lparr>faction_id = Some ''f1'', factionName = ''Red  Team'', bank = 1000,
      members =
        [(7, \<lparr>member_id = 7, member_name = ''Ann'', duty = True, member_gradeId = ''g0'',
              isOwner = True\<rparr>),
         (8, \<lparr>member_id = 8, member_name = ''Bob'', duty = False, member_gradeId = ''g0'',
              isOwner = False\<rparr>),
         (9, \<lparr>member_id = 9, member_name = ''Cy'', duty = False, member_gradeId = ''g0'',
              isOwner = False\<rparr>)],
      grades = [\<lparr>gradeId = ''g0'', rank = ''Boss''\<rparr>],
      locations = [],
      vehicles = [\<lparr>vehicleId = ''v1''\<rparr>]\<rparr>"

definition ann :: Character where
  "ann = \<lparr>character_doc_id = ''c7'', character_id = 7, character_name = ''Ann'',
          character_faction = Some ''f1'', character_bank = 50\<rparr>"

definition bob :: Character where
  "bob = \<lparr>character_doc_id = ''c8'', character_id = 8, character_name = ''Bob'',
          character_faction = Some ''f1'', character_bank = 10\<rparr>"

definition cy :: Character where
  "cy = \<lparr>character_doc_id = ''c9'', character_id = 9, character_name = ''Cy'',
         character_faction = Some ''f1'', character_bank = 0\<rparr>"

definition dee :: Character where
  "dee = \<lparr>character_doc_id = ''c4'', character_id = 4, character_name = ''Dee'',
          character_faction = None, character_bank = 5\<rparr>"

definition red_team_document :: object where
  "red_team_document = (''_id'', VStr ''f1'') # fields_of red_team"

definition world0 :: World where
  "world0 =
     \<lparr>factions = [(''f1'', red_team)],
      callbacks = [\<lambda>_ _. Returns, \<lambda>_ _. Returns],
      db_Factions = [red_team_document],
      db_Characters = [ann, bob, cy, dee],
      db_Vehicles = [''v1''],
      players = [\<lparr>character_document = bob, isValid = True, currency_bank = 10\<rparr>],
      altVehicles = [\<lparr>id_toString = ''v1'', valid = True\<rparr>],
      calls = []\<rparr>"

section \<open>Properties\<close>

subsection \<open>What each step leaves alone\<close>

lemma remove_member_frame:
  "factions (remove_member f ow m w) = factions w"
  "db_Factions (remove_member f ow m w) = db_Factions w"
  "callbacks (remove_member f ow m w) = callbacks w"
  "calls (remove_member f ow m w) = calls w"
  by (simp_all add: remove_member_def character_set_faction_def currency_add_bank_def
      db_update_Characters_def Let_def)

lemma remove_members_frame:
  "factions (remove_members f ow ms w) = factions w"
  "db_Factions (remove_members f ow ms w) = db_Factions w"
  "callbacks (remove_members f ow ms w) = callbacks w"
  "calls (remove_members f ow ms w) = calls w"
  by (induction ms arbitrary: w; simp add: remove_member_frame)+

lemma remove_vehicle_frame:
  "factions (remove_vehicle v w) = factions w"
  "db_Factions (remove_vehicle v w) = db_Factions w"
  "db_Characters (remove_vehicle v w) = db_Characters w"
  "players (remove_vehicle v w) = players w"
  "callbacks (remove_vehicle v w) = callbacks w"
  "calls (remove_vehicle v w) = calls w"
  by (simp_all add: remove_vehicle_def db_deleteDocument_Vehicles_def Let_def
      split: option.splits)

lemma remove_vehicles_frame:
  "factions (remove_vehicles vs w) = factions w"
  "db_Factions (remove_vehicles vs w) = db_Factions w"
  "db_Characters (remove_vehicles vs w) = db_Characters w"
  "players (remove_vehicles vs w) = players w"
  "callbacks (remove_vehicles vs w) = callbacks w"
  "calls (remove_vehicles vs w) = calls w"
  by (induction vs arbitrary: w; simp add: remove_vehicle_frame)+

lemma forEach_callbacks_frame:
  "factions (snd (forEach_callbacks n cbs fid fieldName w)) = factions w"
  "callbacks (snd (forEach_callbacks n cbs fid fieldName w)) = callbacks w"
  "db_Factions (snd (forEach_callbacks n cbs fid fieldName w)) = db_Factions w"
  "db_Characters (snd (forEach_callbacks n cbs fid fieldName w)) = db_Characters w"
  "db_Vehicles (snd (forEach_callbacks n cbs fid fieldName w)) = db_Vehicles w"
  "players (snd (forEach_callbacks n cbs fid fieldName w)) = players w"
  "altVehicles (snd (forEach_callbacks n cbs fid fieldName w)) = altVehicles w"
  by (induction cbs arbitrary: n w; simp add: Let_def split: completion.splits)+

text \<open>A fan-out that returns has called every subscriber once, in order.\<close>

lemma forEach_callbacks_calls:
  "forEach_callbacks n cbs fid fieldName w = (Returns, w') \<Longrightarrow>
   calls w' = calls w @ map (\<lambda>k. (k, fid, fieldName)) [n..<n + length cbs]"
proof (induction cbs arbitrary: n w)
  case Nil
  then show ?case by simp
next
  case (Cons cb cbs)
  from Cons.prems obtain
    rec: "forEach_callbacks (Suc n) cbs fid fieldName
            (w\<lparr>calls := calls w @ [(n, fid, fieldName)]\<rparr>) = (Returns, w')"
    by (simp add: Let_def split: completion.splits)
  have "calls w' = (calls w @ [(n, fid, fieldName)])
          @ map (\<lambda>k. (k, fid, fieldName)) [Suc n..<Suc n + length cbs]"
    using Cons.IH [OF rec] by simp
  moreover have "[n..<n + length (cb # cbs)] = n # [Suc n..<Suc n + length cbs]"
    by (subst upt_rec) simp
  ultimately show ?case by simp
qed

lemma db_update_Factions_frame:
  "factions (db_update_Factions p w) = factions w"
  "callbacks (db_update_Factions p w) = callbacks w"
  "db_Characters (db_update_Factions p w) = db_Characters w"
  "db_Vehicles (db_update_Factions p w) = db_Vehicles w"
  "players (db_update_Factions p w) = players w"
  "altVehicles (db_update_Factions p w) = altVehicles w"
  "calls (db_update_Factions p w) = calls w"
  by (simp_all add: db_update_Factions_def split: fval.splits)

lemma str_includes_iff: "str_includes s q \<longleftrightarrow> (\<exists>pre post. s = pre @ q @ post)"
proof (induction s)
  case Nil
  then show ?case by auto
next
  case (Cons c s)
  show ?case
  proof
    assume "str_includes (c # s) q"
    then consider "take (length q) (c # s) = q" | "str_includes s q" by auto
    then show "\<exists>pre post. c # s = pre @ q @ post"
    proof cases
      case 1
      then have "c # s = [] @ q @ drop (length q) (c # s)"
        by (metis append_Nil append_take_drop_id)
      then show ?thesis by blast
    next
      case 2
      then obtain pre post where "s = pre @ q @ post" using Cons.IH by blast
      then have "c # s = (c # pre) @ q @ post" by simp
      then show ?thesis by blast
    qed
  next
    assume "\<exists>pre post. c # s = pre @ q @ post"
    then obtain pre post where eq: "c # s = pre @ q @ post" by blast
    show "str_includes (c # s) q"
    proof (cases pre)
      case Nil
      with eq have "take (length q) (c # s) = q" by simp
      then show ?thesis by simp
    next
      case (Cons a pre')
      with eq have "s = pre' @ q @ post" by simp
      then have "str_includes s q" using Cons.IH by blast
      then show ?thesis by simp
    qed
  qed
qed

text \<open>
  A call of \<open>db.update\<close> changes the state by its write or not at all, and only an
  adapter that stores changes it.
\<close>

lemma db_update_state:
  "snd (db_update answer write w) = (if answer = Db_stores then write w else w)"
  by (cases answer) (simp_all add: db_update_def)

lemma db_update_result:
  "fst (db_update answer write w) = (case answer of
      Db_stores \<Rightarrow> Inr True | Db_fails \<Rightarrow> Inr False | Db_throws \<Rightarrow> Inl Rejected)"
  by (cases answer) (simp_all add: db_update_def)

lemma obj_get_own:
  "key \<notin> set Object_prototype \<Longrightarrow> obj_get obj key = own_field obj key"
  by (simp add: obj_get_def own_field_def split: option.splits)

lemma obj_get_id: "obj_get obj ''_id'' = own_field obj ''_id''"
  by (rule obj_get_own) (simp add: Object_prototype_def)

subsection \<open>update\<close>

text \<open>
  The state after \<open>update\<close>: the state before when the faction is unknown or
  \<open>db.update\<close> throws, else the state after the fan-out, which starts from the state
  \<open>db.update\<close> left.
\<close>

lemma update_state:
  "snd (update answer fid fieldName partialObject w)
     = (if map_of (factions w) fid = None \<or> answer = Db_throws then w
        else snd (forEach_callbacks 0
               (callbacks w) fid fieldName
               (if answer = Db_stores
                then db_update_Factions
                       (obj_set fieldName (obj_get partialObject fieldName) [(''_id'', VStr fid)]) w
                else w)))"
  by (cases answer)
    (simp_all add: update_def db_update_def Let_def db_update_Factions_frame
      split: option.splits prod.splits completion.splits)

text \<open>
  Claim C6. \<open>update\<close> never changes the record the registry store holds for the
  faction, whether the update succeeds, the faction is unknown, a subscriber throws,
  \<open>db.update\<close> throws or \<open>db.update\<close> answers failure: the whole store is as
  before, and so is what \<open>findFactionById\<close> answers. The collections
  \<open>Characters\<close> and \<open>Vehicles\<close> and the subscriber list are untouched as well, and
  when \<open>db.update\<close> throws or answers failure the collection \<open>Factions\<close> is also
  as before. The only persistent effect of \<open>update\<close> is on the collection
  \<open>Factions\<close>.
\<close>

theorem update_leaves_store_untouched:
  "factions (snd (update answer fid fieldName partialObject w)) = factions w
   \<and> findFactionById fid' (snd (update answer fid fieldName partialObject w))
       = findFactionById fid' w
   \<and> callbacks (snd (update answer fid fieldName partialObject w)) = callbacks w
   \<and> db_Characters (snd (update answer fid fieldName partialObject w)) = db_Characters w
   \<and> db_Vehicles (snd (update answer fid fieldName partialObject w)) = db_Vehicles w
   \<and> db_Factions (snd (update Db_throws fid fieldName partialObject w)) = db_Factions w
   \<and> db_Factions (snd (update Db_fails fid fieldName partialObject w)) = db_Factions w"
  by (simp add: update_state forEach_callbacks_frame db_update_Factions_frame
      findFactionById_def)

lemma obj_get_obj_set:
  "obj_get (obj_set key v obj) key' = (if key' = key then v else obj_get obj key')"
  by (simp add: obj_get_def obj_set_def update_conv')

lemma own_field_obj_set:
  "own_field (obj_set key v obj) key' = (if key' = key then v else own_field obj key')"
  by (simp add: own_field_def obj_set_def update_conv')

text \<open>
  The patch of \<open>update\<close> for a field other than \<open>_id\<close> addresses the faction and
  sets that one field.
\<close>

lemma apply_patch_single:
  "fieldName \<noteq> ''_id'' \<Longrightarrow>
   apply_patch (obj_set fieldName v [(''_id'', VStr fid)]) d = obj_set fieldName v d"
  by (simp add: apply_patch_def obj_set_def AList.delete_eq)

lemma db_update_Factions_single:
  assumes "fieldName \<noteq> ''_id''"
  shows "db_Factions (db_update_Factions (obj_set fieldName v [(''_id'', VStr fid)]) w)
     = map (\<lambda>d. if own_field d ''_id'' = VStr fid then obj_set fieldName v d else d)
         (db_Factions w)"
proof -
  have "own_field (obj_set fieldName v [(''_id'', VStr fid)]) ''_id'' = VStr fid"
    using assms by (simp add: own_field_obj_set) (simp add: own_field_def)
  then show ?thesis
    using assms by (simp add: db_update_Factions_def apply_patch_single)
qed





lemma forEach_callbacks_Returns:
  "\<forall>cb \<in> set cbs. cb fid fieldName = Returns \<Longrightarrow>
   fst (forEach_callbacks n cbs fid fieldName w) = Returns"
  by (induction cbs arbitrary: n w) (simp_all add: Let_def)

text \<open>
  Claim C10, as amended. \<open>update\<close> does not check that the partial record holds the
  named field. Take a faction of the registry store and a field name that the partial
  record does not hold and that is neither \<open>_id\<close> nor the name of a property of
  \<open>Object.prototype\<close>. When \<open>db.update\<close> does not throw and no subscriber throws,
  \<open>update\<close> returns success and has called every subscriber; and when \<open>db.update\<close>
  stored the patch it was given, the named field of the faction's document is now
  \<open>undefined\<close>.
\<close>

theorem update_absent_field_stores_undefined:
  assumes "findFactionById fid w = Some faction"
    and "fieldName \<noteq> ''_id''"
    and "map_of partialObject fieldName = None"
    and "fieldName \<notin> set Object_prototype"
    and "\<forall>cb \<in> set (callbacks w). cb fid fieldName = Returns"
    and "answer \<noteq> Db_throws"
  shows "status (fst (update answer fid fieldName partialObject w))
     \<and> calls (snd (update answer fid fieldName partialObject w))
       = calls w @ map (\<lambda>k. (k, fid, fieldName)) [0..<length (callbacks w)]
     \<and> (answer = Db_stores \<longrightarrow>
          db_Factions (snd (update answer fid fieldName partialObject w))
          = map (\<lambda>d. if own_field d ''_id'' = VStr fid
                      then obj_set fieldName VUndefined d else d)
              (db_Factions w))"
proof -
  define w1 where "w1 = (if answer = Db_stores
           then db_update_Factions (obj_set fieldName VUndefined [(''_id'', VStr fid)]) w
           else w)"
  obtain c w' where fan: "forEach_callbacks 0 (callbacks w) fid fieldName w1 = (c, w')"
    by (cases "forEach_callbacks 0 (callbacks w) fid fieldName w1")
  have absent: "obj_get partialObject fieldName = VUndefined"
    using assms(3,4) by (simp add: obj_get_def)
  have "fst (forEach_callbacks 0 (callbacks w) fid fieldName w1) = Returns"
    using assms(5) by (rule forEach_callbacks_Returns)
  with fan have c: "c = Returns" by simp
  from assms(1) have found: "map_of (factions w) fid = Some faction"
    by (simp add: findFactionById_def)
  have run: "update answer fid fieldName partialObject w = (success ''Updated Faction Data'', w')"
    using found fan c assms(6)
    by (cases answer)
      (simp_all add: update_def db_update_def Let_def absent w1_def db_update_Factions_frame)
  have ok: "status (success ''Updated Faction Data'')"
    by (simp add: success_def)
  have "calls w' = calls w1 @ map (\<lambda>k. (k, fid, fieldName)) [0..<0 + length (callbacks w)]"
    using fan c forEach_callbacks_calls by blast
  then have log: "calls w' = calls w @ map (\<lambda>k. (k, fid, fieldName)) [0..<length (callbacks w)]"
    by (simp add: w1_def db_update_Factions_frame)
  have same: "db_Factions w' = db_Factions w1"
    using forEach_callbacks_frame(3) [of 0 "callbacks w" fid fieldName w1] fan by simp
  have docs: "db_Factions w'
      = map (\<lambda>d. if own_field d ''_id'' = VStr fid then obj_set fieldName VUndefined d else d)
          (db_Factions w)"
    if "answer = Db_stores"
    using that same db_update_Factions_single [OF assms(2)] by (simp add: w1_def)
  show ?thesis
  proof (intro conjI impI)
    show "status (fst (update answer fid fieldName partialObject w))"
      using run ok by simp
    show "calls (snd (update answer fid fieldName partialObject w))
       = calls w @ map (\<lambda>k. (k, fid, fieldName)) [0..<length (callbacks w)]"
      using run log by simp
    assume "answer = Db_stores"
    from docs [OF this] run
    show "db_Factions (snd (update answer fid fieldName partialObject w))
          = map (\<lambda>d. if own_field d ''_id'' = VStr fid
                      then obj_set fieldName VUndefined d else d)
              (db_Factions w)"
      by simp
  qed
qed

text \<open>
  \<open>update(id, "colour", {bank: 500})\<close> with an adapter that stores: the document
  gets a field \<open>colour\<close> whose value is \<open>undefined\<close>, both subscribers are called and
  the call succeeds.
\<close>

theorem update_absent_field_stores_undefined_witness:
  "findFactionById ''f1'' world0 = Some red_team
   \<and> map_of [(''bank'', VNum 500)] ''colour'' = None
   \<and> ''colour'' \<notin> set Object_prototype
   \<and> status (fst (update Db_stores ''f1'' ''colour'' [(''bank'', VNum 500)] world0))
   \<and> map (\<lambda>d. map_of d ''colour'')
        (db_Factions (snd (update Db_stores ''f1'' ''colour'' [(''bank'', VNum 500)] world0)))
       = [Some VUndefined]
   \<and> calls (snd (update Db_stores ''f1'' ''colour'' [(''bank'', VNum 500)] world0))
       = [(0, ''f1'', ''colour''), (1, ''f1'', ''colour'')]"
proof -
  have found: "findFactionById ''f1'' world0 = Some red_team"
    by (simp add: findFactionById_def world0_def)
  have name: "''colour'' \<noteq> ''_id''" by simp
  have absent: "map_of [(''bank'', VNum 500)] ''colour'' = None" by simp
  have own: "''colour'' \<notin> set Object_prototype" by code_simp
  have quiet: "\<forall>cb \<in> set (callbacks world0). cb ''f1'' ''colour'' = Returns"
    by (simp add: world0_def)
  have stores: "Db_stores \<noteq> Db_throws" by simp
  note concl = update_absent_field_stores_undefined [OF found name absent own quiet stores]
  have docs: "map (\<lambda>d. map_of d ''colour'')
        (db_Factions (snd (update Db_stores ''f1'' ''colour'' [(''bank'', VNum 500)] world0)))
       = [Some VUndefined]"
    using concl
    by (simp add: world0_def red_team_document_def own_field_def obj_set_def update_conv'
        fields_of_def)
  have log: "calls (snd (update Db_stores ''f1'' ''colour'' [(''bank'', VNum 500)] world0))
       = [(0, ''f1'', ''colour''), (1, ''f1'', ''colour'')]"
    using concl by (simp add: world0_def upt_rec)
  show ?thesis using found absent own concl docs log by simp
qed

text \<open>
  Claim C10 as stated fails in three ways. For the field name \<open>_id\<close>, with a partial
  record that holds no \<open>_id\<close>, the patch is \<open>{ _id: undefined }\<close>, which addresses
  no document: \<open>update\<close> reports success and has called both subscribers, but the
  collection is as before and the document's \<open>_id\<close> is not \<open>undefined\<close>. For the
  field name \<open>constructor\<close>, which the partial record \<open>{}\<close> does not hold, the
  record reads as the function it inherits, and that, not \<open>undefined\<close>, is what the
  patch carries and the adapter stores. And persistence alone does not make the call
  succeed: when the first subscriber throws, the field \<open>colour\<close> is stored, the second
  subscriber is never called and \<open>update\<close> reports a failure.
\<close>

theorem update_absent_id_counterexample:
  "findFactionById ''f1'' world0 = Some red_team
   \<and> map_of ([] :: object) ''_id'' = None
   \<and> status (fst (update Db_stores ''f1'' ''_id'' [] world0))
   \<and> calls (snd (update Db_stores ''f1'' ''_id'' [] world0))
       = [(0, ''f1'', ''_id''), (1, ''f1'', ''_id'')]
   \<and> db_Factions (snd (update Db_stores ''f1'' ''_id'' [] world0)) = [red_team_document]
   \<and> own_field red_team_document ''_id'' \<noteq> VUndefined
   \<and> map_of ([] :: object) ''constructor'' = None
   \<and> status (fst (update Db_stores ''f1'' ''constructor'' [] world0))
   \<and> map (\<lambda>d. map_of d ''constructor'')
        (db_Factions (snd (update Db_stores ''f1'' ''constructor'' [] world0)))
       = [Some (VInherited ''constructor'')]
   \<and> map_of ([] :: object) ''colour'' = None
   \<and> \<not> status (fst (update Db_stores ''f1'' ''colour'' []
                     (world0\<lparr>callbacks := [\<lambda>_ _. Throws, \<lambda>_ _. Returns]\<rparr>)))
   \<and> map (\<lambda>d. map_of d ''colour'')
        (db_Factions (snd (update Db_stores ''f1'' ''colour'' []
                             (world0\<lparr>callbacks := [\<lambda>_ _. Throws, \<lambda>_ _. Returns]\<rparr>))))
       = [Some VUndefined]
   \<and> calls (snd (update Db_stores ''f1'' ''colour'' []
                     (world0\<lparr>callbacks := [\<lambda>_ _. Throws, \<lambda>_ _. Returns]\<rparr>)))
       = [(0, ''f1'', ''colour'')]"
  by code_simp

subsection \<open>findFactionByName\<close>

text \<open>
  Claim C7, as amended. For every query, and whatever the table of
  \<open>String.prototype.toLowerCase\<close> is, \<open>findFactionByName\<close> compares the query and
  each \<open>factionName\<close> after dropping their space characters (U+0020 only) and
  applying \<open>toLowerCase\<close> to both, and looks for the query as a contiguous piece of
  the name. It returns the first faction in the iteration order of the store whose name
  matches, and not-found exactly when no name matches.
\<close>

theorem findFactionByName_first_match:
  "(findFactionByName toLowerCase query w = None \<longleftrightarrow>
      (\<forall>f \<in> set (map snd (factions w)).
         \<not> (\<exists>pre post. toLowerCase (filter (\<lambda>c. c \<noteq> CHR '' '') (factionName f))
               = pre @ toLowerCase (filter (\<lambda>c. c \<noteq> CHR '' '') query) @ post)))
   \<and> (\<forall>f. findFactionByName toLowerCase query w = Some f \<longleftrightarrow>
         (\<exists>i < length (factions w).
            (\<exists>pre post.
                toLowerCase (filter (\<lambda>c. c \<noteq> CHR '' '') (factionName (snd (factions w ! i))))
                = pre @ toLowerCase (filter (\<lambda>c. c \<noteq> CHR '' '') query) @ post)
            \<and> f = snd (factions w ! i)
            \<and> (\<forall>j < i.
                 \<not> (\<exists>pre post.
                        toLowerCase
                          (filter (\<lambda>c. c \<noteq> CHR '' '') (factionName (snd (factions w ! j))))
                        = pre @ toLowerCase (filter (\<lambda>c. c \<noteq> CHR '' '') query) @ post))))"
proof -
  let ?P = "\<lambda>faction. \<exists>pre post.
      toLowerCase (filter (\<lambda>c. c \<noteq> CHR '' '') (factionName faction))
      = pre @ toLowerCase (filter (\<lambda>c. c \<noteq> CHR '' '') query) @ post"
  have run: "findFactionByName toLowerCase query w = find ?P (map snd (factions w))"
    by (simp add: findFactionByName_def Let_def replace_spaces_def str_includes_iff)
  have none: "find ?P (map snd (factions w)) = None
      \<longleftrightarrow> (\<forall>f \<in> set (map snd (factions w)). \<not> ?P f)"
    unfolding find_None_iff by blast
  have some: "find ?P (map snd (factions w)) = Some f
      \<longleftrightarrow> (\<exists>i < length (factions w). ?P (snd (factions w ! i)) \<and> f = snd (factions w ! i)
            \<and> (\<forall>j < i. \<not> ?P (snd (factions w ! j))))" for f
  proof -
    have "find ?P (map snd (factions w)) = Some f
      \<longleftrightarrow> (\<exists>i < length (map snd (factions w)). ?P (map snd (factions w) ! i)
              \<and> f = map snd (factions w) ! i
              \<and> (\<forall>j < i. \<not> ?P (map snd (factions w) ! j)))"
      by (rule find_Some_iff)
    also have "\<dots> \<longleftrightarrow> (\<exists>i < length (factions w). ?P (snd (factions w ! i))
            \<and> f = snd (factions w ! i) \<and> (\<forall>j < i. \<not> ?P (snd (factions w ! j))))"
      by (intro ex_cong1 conj_cong refl all_cong1 imp_cong) simp_all
    finally show ?thesis .
  qed
  show ?thesis unfolding run none using some by blast
qed

text \<open>
  The example of the specification, on ASCII strings: the query \<open>red team\<close> finds the
  faction named \<open>Red  Team\<close>, the first (and only) faction of the store.
\<close>

theorem findFactionByName_first_match_witness:
  "findFactionByName toLowerCase_ascii ''red team'' world0 = Some red_team
   \<and> toLowerCase_ascii (filter (\<lambda>c. c \<noteq> CHR '' '') (factionName red_team))
       = [] @ toLowerCase_ascii (filter (\<lambda>c. c \<noteq> CHR '' '') ''red team'') @ []"
proof -
  have len: "0 < length (factions world0)" by code_simp
  have first: "snd (factions world0 ! 0) = red_team"
    by (simp add: world0_def)
  have same: "toLowerCase_ascii (filter (\<lambda>c. c \<noteq> CHR '' '') (factionName red_team))
       = [] @ toLowerCase_ascii (filter (\<lambda>c. c \<noteq> CHR '' '') ''red team'') @ []"
    by code_simp
  then have hit: "\<exists>pre post.
       toLowerCase_ascii (filter (\<lambda>c. c \<noteq> CHR '' '') (factionName (snd (factions world0 ! 0))))
       = pre @ toLowerCase_ascii (filter (\<lambda>c. c \<noteq> CHR '' '') ''red team'') @ post"
    unfolding first by blast
  have "\<exists>i < length (factions world0).
      (\<exists>pre post.
          toLowerCase_ascii (filter (\<lambda>c. c \<noteq> CHR '' '') (factionName (snd (factions world0 ! i))))
          = pre @ toLowerCase_ascii (filter (\<lambda>c. c \<noteq> CHR '' '') ''red team'') @ post)
      \<and> red_team = snd (factions world0 ! i)
      \<and> (\<forall>j < i.
           \<not> (\<exists>pre post.
                  toLowerCase_ascii
                    (filter (\<lambda>c. c \<noteq> CHR '' '') (factionName (snd (factions world0 ! j))))
                  = pre @ toLowerCase_ascii (filter (\<lambda>c. c \<noteq> CHR '' '') ''red team'') @ post))"
    using len hit first by (intro exI [of _ 0]) simp
  then have "findFactionByName toLowerCase_ascii ''red team'' world0 = Some red_team"
    using findFactionByName_first_match [of toLowerCase_ascii "''red team''" world0] by blast
  with same show ?thesis by simp
qed

text \<open>
  Claim C7 as stated, with whitespace-stripped matching, fails for a query with a
  tabulator: \<open>red<TAB>team\<close> matches the name \<open>Red  Team\<close> once whitespace is
  stripped from both, but \<open>findFactionByName\<close> keeps the tabulator and finds nothing.
  Query and name are ASCII strings, on which \<open>toLowerCase\<close> is \<open>toLowerCase_ascii\<close>.
\<close>

theorem findFactionByName_tab_counterexample:
  "spec_name_match toLowerCase_ascii (''red'' @ [CHR 0x09] @ ''team'') (factionName red_team)
   \<and> red_team \<in> set (getAllFactions world0)
   \<and> findFactionByName toLowerCase_ascii (''red'' @ [CHR 0x09] @ ''team'') world0 = None"
  by code_simp

subsection \<open>create\<close>

text \<open>
  The runs of \<open>create\<close>, one case for each way out of the function: the five
  returns of a failure, the \<open>TypeError\<close> of an empty rank template, the rejection
  when \<open>db.update\<close> throws at line 96, and the return of success. Only the last two
  come after a write.
\<close>

lemma create_cases:
  fixes DefaultRanks sha256Random inserted character_update characterOwnerID core w
  defines "run \<equiv> create DefaultRanks sha256Random inserted character_update
                     characterOwnerID core w"
  obtains
    (missing_name)
      "core_factionName core = None \<or> core_factionName core = Some []"
      "run = (Inr (failure ''Cannot create faction, missing faction name.''), w)"
  | (no_character) name where
      "core_factionName core = Some name" "name \<noteq> []"
      "db_getMany_Characters (By_id characterOwnerID) w = []"
      "run = (Inr (failure (''Could not find a character with identifier: ''
                            @ toString characterOwnerID)), w)"
  | (in_faction) name character others where
      "core_factionName core = Some name" "name \<noteq> []"
      "db_getMany_Characters (By_id characterOwnerID) w = character # others"
      "truthy (character_faction character)"
      "run = (Inr (failure ''Character is already in a faction.''), w)"
  | (no_ranks) name character others where
      "core_factionName core = Some name" "name \<noteq> []"
      "db_getMany_Characters (By_id characterOwnerID) w = character # others"
      "\<not> truthy (character_faction character)"
      "clone_ranks sha256Random DefaultRanks = []"
      "run = (Inl TypeError, w)"
  | (name_taken) name character others where
      "core_factionName core = Some name" "name \<noteq> []"
      "db_getMany_Characters (By_id characterOwnerID) w = character # others"
      "\<not> truthy (character_faction character)"
      "db_getMany_Factions [(''factionName'', VStr name)] w \<noteq> []"
      "run = (Inr (failure ''Cannot insert faction into database.''), w)"
  | (not_inserted) name character others where
      "core_factionName core = Some name" "name \<noteq> []"
      "db_getMany_Characters (By_id characterOwnerID) w = character # others"
      "\<not> truthy (character_faction character)"
      "db_getMany_Factions [(''factionName'', VStr name)] w = []"
      "inserted = None \<or> inserted = Some []"
      "run = (Inr (failure ''Cannot insert faction into database.''), w)"
  | (rejected) name character others firstRank ranks factionId where
      "core_factionName core = Some name" "name \<noteq> []"
      "db_getMany_Characters (By_id characterOwnerID) w = character # others"
      "\<not> truthy (character_faction character)"
      "clone_ranks sha256Random DefaultRanks = firstRank # ranks"
      "db_getMany_Factions [(''factionName'', VStr name)] w = []"
      "inserted = Some factionId" "factionId \<noteq> []"
      "character_update = Db_throws"
      "run = (Inl Rejected,
              founded factionId
                (new_faction characterOwnerID character core firstRank (firstRank # ranks)) w)"
  | (created) name character others firstRank ranks factionId where
      "core_factionName core = Some name" "name \<noteq> []"
      "db_getMany_Characters (By_id characterOwnerID) w = character # others"
      "\<not> truthy (character_faction character)"
      "clone_ranks sha256Random DefaultRanks = firstRank # ranks"
      "db_getMany_Factions [(''factionName'', VStr name)] w = []"
      "inserted = Some factionId" "factionId \<noteq> []"
      "character_update \<noteq> Db_throws"
      "run = (Inr (success factionId),
              (if character_update = Db_stores
               then db_update_Characters (VStr (character_doc_id character))
                      (\<lambda>c. c\<lparr>character_faction := Some factionId\<rparr>)
               else (\<lambda>w. w))
                (founded factionId
                   (new_faction characterOwnerID character core firstRank (firstRank # ranks))
                   w))"
proof (cases "case core_factionName core of None \<Rightarrow> True | Some n \<Rightarrow> n = []")
  case True
  then have "core_factionName core = None \<or> core_factionName core = Some []"
    by (cases "core_factionName core") auto
  moreover from True
  have "run = (Inr (failure ''Cannot create faction, missing faction name.''), w)"
    by (simp add: run_def create_def)
  ultimately show thesis by (rule missing_name)
next
  case False
  then obtain name where name: "core_factionName core = Some name" "name \<noteq> []"
    by (cases "core_factionName core") auto
  show thesis
  proof (cases "db_getMany_Characters (By_id characterOwnerID) w")
    case Nil
    with name have "run = (Inr (failure (''Could not find a character with identifier: ''
                            @ toString characterOwnerID)), w)"
      by (simp add: run_def create_def)
    with name Nil show thesis by (rule no_character)
  next
    case (Cons character others)
    show thesis
    proof (cases "truthy (character_faction character)")
      case True
      with name Cons have "run = (Inr (failure ''Character is already in a faction.''), w)"
        by (simp add: run_def create_def)
      with name Cons True show thesis by (rule in_faction)
    next
      case free: False
      show thesis
      proof (cases "clone_ranks sha256Random DefaultRanks")
        case Nil
        with name Cons free have "run = (Inl TypeError, w)"
          by (simp add: run_def create_def)
        with name Cons free Nil show thesis by (rule no_ranks)
      next
        case ranks: (Cons firstRank ranks)
        show thesis
        proof (cases "db_getMany_Factions [(''factionName'', VStr name)] w = []")
          case False
          with name Cons free ranks
          have "run = (Inr (failure ''Cannot insert faction into database.''), w)"
            by (simp add: run_def create_def Let_def)
          with name Cons free False show thesis by (rule name_taken)
        next
          case fresh: True
          show thesis
          proof (cases "inserted = None \<or> inserted = Some []")
            case True
            with name Cons free ranks fresh
            have "run = (Inr (failure ''Cannot insert faction into database.''), w)"
              by (auto simp: run_def create_def Let_def db_create_Factions_def)
            with name Cons free fresh True show thesis by (rule not_inserted)
          next
            case False
            then obtain factionId where ins: "inserted = Some factionId" "factionId \<noteq> []"
              by (cases inserted) auto
            show thesis
            proof (cases "character_update = Db_throws")
              case True
              with name Cons free ranks fresh ins
              have "run = (Inl Rejected,
                  founded factionId
                    (new_faction characterOwnerID character core firstRank (firstRank # ranks)) w)"
                by (simp add: run_def create_def Let_def db_create_Factions_def db_update_def
                    founded_def)
              with name Cons free ranks fresh ins True show thesis by (rule rejected)
            next
              case False
              with name Cons free ranks fresh ins
              have "run = (Inr (success factionId),
                  (if character_update = Db_stores
                   then db_update_Characters (VStr (character_doc_id character))
                          (\<lambda>c. c\<lparr>character_faction := Some factionId\<rparr>)
                   else (\<lambda>w. w))
                    (founded factionId
                       (new_faction characterOwnerID character core firstRank (firstRank # ranks))
                       w))"
                by (cases character_update)
                  (simp_all add: run_def create_def Let_def db_create_Factions_def db_update_def
                    founded_def)
              with name Cons free ranks fresh ins False show thesis by (rule created)
            qed
          qed
        qed
      qed
    qed
  qed
qed

lemma founded_frame:
  "factions (founded factionId faction w)
     = AList.update factionId (faction\<lparr>faction_id := Some factionId\<rparr>) (factions w)"
  "db_Factions (founded factionId faction w)
     = db_Factions w @ [(''_id'', VStr factionId) # fields_of faction]"
  "db_Characters (founded factionId faction w) = db_Characters w"
  by (simp_all add: founded_def InternalFunctions_update_def)

text \<open>
  Claim C4. A \<open>create\<close> that returns a failure has one of the five causes of the
  claim (the name is missing or empty, the character is not found, the character is
  already in a faction, the name is taken, or the adapter did not store the record), and
  it leaves the whole state as it was: the registry store, the collection \<open>Factions\<close>
  and every character's \<open>faction\<close> reference included.
\<close>

theorem create_failure_changes_nothing:
  assumes "create DefaultRanks sha256Random inserted character_update characterOwnerID core w
             = (Inr r, w')"
    and "\<not> status r"
  shows "w' = w
     \<and> factions w' = factions w
     \<and> db_Factions w' = db_Factions w
     \<and> map character_faction (db_Characters w') = map character_faction (db_Characters w)
     \<and> (core_factionName core = None
        \<or> core_factionName core = Some []
        \<or> db_getMany_Characters (By_id characterOwnerID) w = []
        \<or> (\<exists>character others.
              db_getMany_Characters (By_id characterOwnerID) w = character # others
              \<and> truthy (character_faction character))
        \<or> (\<exists>name. core_factionName core = Some name
              \<and> db_getMany_Factions [(''factionName'', VStr name)] w \<noteq> [])
        \<or> inserted = None
        \<or> inserted = Some [])"
proof (cases rule: create_cases [where DefaultRanks = DefaultRanks
      and sha256Random = sha256Random and inserted = inserted
      and character_update = character_update and characterOwnerID = characterOwnerID
      and core = core and w = w])
  case missing_name
  with assms show ?thesis by auto
next
  case (no_character name)
  with assms show ?thesis by auto
next
  case (in_faction name character others)
  with assms show ?thesis by auto
next
  case (no_ranks name character others)
  with assms show ?thesis by simp
next
  case (name_taken name character others)
  with assms show ?thesis by auto
next
  case (not_inserted name character others)
  with assms show ?thesis by auto
next
  case (rejected name character others firstRank ranks factionId)
  with assms show ?thesis by simp
next
  case (created name character others firstRank ranks factionId)
  with assms show ?thesis by (simp add: success_def)
qed

text \<open>Each of the five causes makes \<open>create\<close> return a failure, or throw.\<close>

lemma create_fails:
  assumes "core_factionName core = None \<or> core_factionName core = Some []
     \<or> db_getMany_Characters (By_id characterOwnerID) w = []
     \<or> truthy (character_faction (hd (db_getMany_Characters (By_id characterOwnerID) w)))
     \<or> db_getMany_Factions [(''factionName'', VStr (the (core_factionName core)))] w \<noteq> []
     \<or> inserted = None"
  shows "\<not> status r
     \<or> fst (create DefaultRanks sha256Random inserted character_update characterOwnerID core w)
         \<noteq> Inr r"
proof (cases rule: create_cases [where DefaultRanks = DefaultRanks
      and sha256Random = sha256Random and inserted = inserted
      and character_update = character_update and characterOwnerID = characterOwnerID
      and core = core and w = w])
  case (created name character others firstRank ranks factionId)
  with assms show ?thesis by auto
qed (auto simp: failure_def)

text \<open>
  The other way out without success after a write: when \<open>db.update\<close> throws at
  line 96, \<open>create\<close> is rejected and nothing is undone. In the small world,
  Dee founds Lost MC and the adapter throws at line 96: the call is rejected, the
  faction is in the registry and in the collection, and Dee's document has no faction.
\<close>

lemma create_rejected_keeps_faction:
  "fst (create [\<lparr>gradeId = [], rank = ''Boss''\<rparr>] (\<lambda>n g. ''h'' @ rank g) (Some ''f2'')
          Db_throws 4 \<lparr>core_factionName = Some ''Lost MC'', core_bank = None\<rparr> world0)
     = Inl Rejected
   \<and> map fst (factions (snd (create [\<lparr>gradeId = [], rank = ''Boss''\<rparr>]
          (\<lambda>n g. ''h'' @ rank g) (Some ''f2'') Db_throws 4
          \<lparr>core_factionName = Some ''Lost MC'', core_bank = None\<rparr> world0)))
       = [''f1'', ''f2'']
   \<and> map (\<lambda>d. own_field d ''_id'') (db_Factions (snd (create [\<lparr>gradeId = [], rank = ''Boss''\<rparr>]
          (\<lambda>n g. ''h'' @ rank g) (Some ''f2'') Db_throws 4
          \<lparr>core_factionName = Some ''Lost MC'', core_bank = None\<rparr> world0)))
       = [VStr ''f1'', VStr ''f2'']
   \<and> map character_faction (db_getMany_Characters (By_id 4)
          (snd (create [\<lparr>gradeId = [], rank = ''Boss''\<rparr>]
          (\<lambda>n g. ''h'' @ rank g) (Some ''f2'') Db_throws 4
          \<lparr>core_factionName = Some ''Lost MC'', core_bank = None\<rparr> world0)))
       = [None]"
  by code_simp

text \<open>
  Dee (character 4, in no faction) asks for a faction with the name of Red Team, which
  is taken: \<open>create\<close> returns a failure and the state is as before.
\<close>

theorem create_failure_changes_nothing_witness:
  "fst (create [\<lparr>gradeId = [], rank = ''Boss''\<rparr>] (\<lambda>n g. ''h'' @ rank g) (Some ''f2'')
          Db_stores 4 \<lparr>core_factionName = Some ''Red  Team'', core_bank = None\<rparr> world0)
     = Inr (failure ''Cannot insert faction into database.'')
   \<and> \<not> status (failure ''Cannot insert faction into database.'')
   \<and> snd (create [\<lparr>gradeId = [], rank = ''Boss''\<rparr>] (\<lambda>n g. ''h'' @ rank g) (Some ''f2'')
          Db_stores 4 \<lparr>core_factionName = Some ''Red  Team'', core_bank = None\<rparr> world0)
     = world0"
proof -
  obtain result w' where
    run: "create [\<lparr>gradeId = [], rank = ''Boss''\<rparr>] (\<lambda>n g. ''h'' @ rank g) (Some ''f2'')
            Db_stores 4 \<lparr>core_factionName = Some ''Red  Team'', core_bank = None\<rparr> world0
          = (result, w')"
    by (cases "create [\<lparr>gradeId = [], rank = ''Boss''\<rparr>] (\<lambda>n g. ''h'' @ rank g) (Some ''f2'')
            Db_stores 4 \<lparr>core_factionName = Some ''Red  Team'', core_bank = None\<rparr> world0")
  have "fst (create [\<lparr>gradeId = [], rank = ''Boss''\<rparr>] (\<lambda>n g. ''h'' @ rank g) (Some ''f2'')
          Db_stores 4 \<lparr>core_factionName = Some ''Red  Team'', core_bank = None\<rparr> world0)
     = Inr (failure ''Cannot insert faction into database.'')"
    by code_simp
  with run have res: "result = Inr (failure ''Cannot insert faction into database.'')"
    by simp
  have no: "\<not> status (failure ''Cannot insert faction into database.'')"
    by (simp add: failure_def)
  from run res have run': "create [\<lparr>gradeId = [], rank = ''Boss''\<rparr>] (\<lambda>n g. ''h'' @ rank g)
            (Some ''f2'') Db_stores 4
            \<lparr>core_factionName = Some ''Red  Team'', core_bank = None\<rparr> world0
          = (Inr (failure ''Cannot insert faction into database.''), w')"
    by simp
  from create_failure_changes_nothing [OF run' no] have "w' = world0" by simp
  with run res no show ?thesis by simp
qed

text \<open>
  A successful \<open>create\<close>: the adapter answered \<open>factionId\<close>, which is the
  response, and the state is the founded one, with the character's reference written
  when the adapter stored it.
\<close>

lemma create_success:
  assumes "create DefaultRanks sha256Random inserted character_update characterOwnerID core w
             = (Inr r, w')"
    and "status r"
  obtains name character others firstRank ranks where
    "core_factionName core = Some name"
    "db_getMany_Characters (By_id characterOwnerID) w = character # others"
    "clone_ranks sha256Random DefaultRanks = firstRank # ranks"
    "inserted = Some (response r)"
    "factions w' = factions (founded (response r)
        (new_faction characterOwnerID character core firstRank (firstRank # ranks)) w)"
    "db_Factions w' = db_Factions (founded (response r)
        (new_faction characterOwnerID character core firstRank (firstRank # ranks)) w)"
proof (cases rule: create_cases [where DefaultRanks = DefaultRanks
      and sha256Random = sha256Random and inserted = inserted
      and character_update = character_update and characterOwnerID = characterOwnerID
      and core = core and w = w])
  case (created name character others firstRank ranks factionId)
  from created(10) assms(1) have r: "r = success factionId"
    and w': "w' = (if character_update = Db_stores
               then db_update_Characters (VStr (character_doc_id character))
                      (\<lambda>c. c\<lparr>character_faction := Some factionId\<rparr>)
               else (\<lambda>w. w))
                (founded factionId
                   (new_faction characterOwnerID character core firstRank (firstRank # ranks))
                   w)"
    by simp_all
  from r have id: "response r = factionId" by (simp add: success_def)
  show thesis
  proof (rule that [of name character others firstRank ranks])
    show "core_factionName core = Some name" by (rule created(1))
    show "db_getMany_Characters (By_id characterOwnerID) w = character # others"
      by (rule created(3))
    show "clone_ranks sha256Random DefaultRanks = firstRank # ranks" by (rule created(5))
    show "inserted = Some (response r)" using created(7) id by simp
    show "factions w' = factions (founded (response r)
        (new_faction characterOwnerID character core firstRank (firstRank # ranks)) w)"
      unfolding w' id by (simp add: db_update_Characters_def)
    show "db_Factions w' = db_Factions (founded (response r)
        (new_faction characterOwnerID character core firstRank (firstRank # ranks)) w)"
      unfolding w' id by (simp add: db_update_Characters_def)
  qed
qed (use assms in \<open>simp_all add: failure_def\<close>)

text \<open>
  Claim C8. After a successful \<open>create\<close> the registry store holds, under the
  returned identifier, a faction record whose \<open>bank\<close> is the given one, or 0 when
  none was given; whose only member is the founding character, with \<open>isOwner\<close> and
  \<open>duty\<close> true and the \<open>gradeId\<close> of the first grade; and whose \<open>locations\<close>
  and \<open>vehicles\<close> are empty. The same record, under the same identifier, is a
  document of the collection \<open>Factions\<close>.
\<close>

theorem create_builds_record:
  assumes "create DefaultRanks sha256Random inserted character_update characterOwnerID core w
             = (Inr r, w')"
    and "status r"
  shows "\<exists>faction owner firstGrade otherGrades.
           findFactionById (response r) w' = Some faction
         \<and> faction_id faction = Some (response r)
         \<and> core_factionName core = Some (factionName faction)
         \<and> bank faction = (case core_bank core of None \<Rightarrow> 0 | Some b \<Rightarrow> b)
         \<and> members faction = [(characterOwnerID, owner)]
         \<and> member_id owner = characterOwnerID
         \<and> isOwner owner
         \<and> duty owner
         \<and> grades faction = firstGrade # otherGrades
         \<and> member_gradeId owner = gradeId firstGrade
         \<and> locations faction = []
         \<and> vehicles faction = []
         \<and> ((''_id'', VStr (response r)) # fields_of faction) \<in> set (db_Factions w')"
  using assms
proof (rule create_success)
  fix name :: string and character :: Character and firstRank :: Grades
    and ranks :: "Grades list"
  define built where
    "built = new_faction characterOwnerID character core firstRank (firstRank # ranks)"
  define faction where "faction = built\<lparr>faction_id := Some (response r)\<rparr>"
  assume name: "core_factionName core = Some name"
    and store: "factions w' = factions (founded (response r)
        (new_faction characterOwnerID character core firstRank (firstRank # ranks)) w)"
    and docs: "db_Factions w' = db_Factions (founded (response r)
        (new_faction characterOwnerID character core firstRank (firstRank # ranks)) w)"
  have "findFactionById (response r) w' = Some faction"
    unfolding findFactionById_def store
    by (simp add: founded_frame update_conv' faction_def built_def)
  moreover have "fields_of faction = fields_of built"
    by (simp add: faction_def fields_of_def)
  then have "((''_id'', VStr (response r)) # fields_of faction) \<in> set (db_Factions w')"
    unfolding docs by (simp add: founded_frame built_def)
  ultimately show ?thesis
    using name
    by (intro exI [of _ faction] exI [of _ "snd (hd (members faction))"]
        exI [of _ firstRank] exI [of _ ranks])
      (simp add: faction_def built_def new_faction_def)
qed

text \<open>
  The scenario of the specification: Dee (character 4) founds Lost MC, with no bank
  value. The record of the store has \<open>bank = 0\<close> and the one member 4, the owner.
\<close>

theorem create_builds_record_witness:
  "status (success ''f2'')
   \<and> fst (create [\<lparr>gradeId = [], rank = ''Boss''\<rparr>] (\<lambda>n g. ''h'' @ rank g) (Some ''f2'')
          Db_stores 4 \<lparr>core_factionName = Some ''Lost MC'', core_bank = None\<rparr> world0)
     = Inr (success ''f2'')
   \<and> (\<exists>faction owner.
         findFactionById ''f2''
           (snd (create [\<lparr>gradeId = [], rank = ''Boss''\<rparr>] (\<lambda>n g. ''h'' @ rank g) (Some ''f2'')
                  Db_stores 4 \<lparr>core_factionName = Some ''Lost MC'', core_bank = None\<rparr> world0))
           = Some faction
       \<and> bank faction = 0
       \<and> members faction = [(4, owner)]
       \<and> isOwner owner)"
proof -
  obtain result w' where
    run: "create [\<lparr>gradeId = [], rank = ''Boss''\<rparr>] (\<lambda>n g. ''h'' @ rank g) (Some ''f2'')
            Db_stores 4 \<lparr>core_factionName = Some ''Lost MC'', core_bank = None\<rparr> world0
          = (result, w')"
    by (cases "create [\<lparr>gradeId = [], rank = ''Boss''\<rparr>] (\<lambda>n g. ''h'' @ rank g) (Some ''f2'')
            Db_stores 4 \<lparr>core_factionName = Some ''Lost MC'', core_bank = None\<rparr> world0")
  have res: "fst (create [\<lparr>gradeId = [], rank = ''Boss''\<rparr>] (\<lambda>n g. ''h'' @ rank g) (Some ''f2'')
          Db_stores 4 \<lparr>core_factionName = Some ''Lost MC'', core_bank = None\<rparr> world0)
     = Inr (success ''f2'')"
    by code_simp
  with run have run': "create [\<lparr>gradeId = [], rank = ''Boss''\<rparr>] (\<lambda>n g. ''h'' @ rank g)
            (Some ''f2'') Db_stores 4
            \<lparr>core_factionName = Some ''Lost MC'', core_bank = None\<rparr> world0
          = (Inr (success ''f2''), w')"
    by simp
  have ok: "status (success ''f2'')" by (simp add: success_def)
  from create_builds_record [OF run' ok]
  have "\<exists>faction owner. findFactionById ''f2'' w' = Some faction \<and> bank faction = 0
        \<and> members faction = [(4, owner)] \<and> isOwner owner"
    by (auto simp: success_def)
  with run res ok show ?thesis by simp
qed

subsection \<open>The invariant of the store\<close>

text \<open>The store is empty when the module is loaded, and the invariant holds then.\<close>

lemma store_inv_empty: "store_inv []"
  by (simp add: store_inv_def)

lemma store_inv_update:
  assumes "store_inv store" and "faction_id faction = Some key"
  shows "store_inv (AList.update key faction store)"
proof -
  have "list_all (\<lambda>(k, f). faction_id f = Some k) (AList.update key faction store)"
    using assms by (induction store) (auto simp: store_inv_def)
  moreover have "distinct (map fst (AList.update key faction store))"
    using assms(1) by (simp add: store_inv_def distinct_update)
  ultimately show ?thesis by (simp add: store_inv_def)
qed

lemma store_inv_delete:
  assumes "store_inv store"
  shows "store_inv (AList.delete key store)"
proof -
  have "list_all (\<lambda>(k, f). faction_id f = Some k) (AList.delete key store)"
    using assms by (induction store) (auto simp: store_inv_def)
  moreover have "distinct (map fst (AList.delete key store))"
    using assms by (simp add: store_inv_def distinct_delete)
  ultimately show ?thesis by (simp add: store_inv_def)
qed

text \<open>A document read at the type \<open>Factions\<close> gives a record with the document's \<open>_id\<close>.\<close>

lemma as_Factions_id:
  assumes "as_Factions d = Some faction"
  obtains key where "obj_get d ''_id'' = VStr key" "faction_id faction = Some key"
proof -
  from assms obtain key where
    "as_string (own_field d ''_id'') = Some key" "faction_id faction = Some key"
    by (auto simp: as_Factions_def split: option.splits)
  moreover from this(1) have "own_field d ''_id'' = VStr key"
    by (cases "own_field d ''_id''") simp_all
  ultimately show thesis using that by (simp add: obj_get_id)
qed

lemma init_loop_store:
  assumes "init_loop factionList w = Inr w'" and "store_inv (factions w)"
  shows "store_inv (factions w')
     \<and> fst ` set (factions w')
         \<subseteq> fst ` set (factions w) \<union> {key. \<exists>d \<in> set (db_Factions w). obj_get d ''_id'' = VStr key}"
  using assms
proof (induction factionList arbitrary: w)
  case Nil
  then show ?case by auto
next
  case (Cons d factionList)
  show ?case
  proof (cases "db_getMany_Factions [(''_id'', obj_get d ''_id'')] w")
    case Nil
    then have "init_loop (d # factionList) w = init_loop factionList w" by simp
    with Cons.prems(1) have "init_loop factionList w = Inr w'" by simp
    from Cons.IH [OF this Cons.prems(2)] show ?thesis .
  next
    case found: (Cons fullFaction others)
    then have "fullFaction \<in> set (db_getMany_Factions [(''_id'', obj_get d ''_id'')] w)"
      by simp
    then have stored: "fullFaction \<in> set (db_Factions w)"
      by (simp add: db_getMany_Factions_def)
    have step: "init_loop (d # factionList) w
        = (case as_Factions fullFaction of
             None \<Rightarrow> Inl Not_Factions
           | Some faction \<Rightarrow> init_loop factionList (InternalFunctions_update faction w))"
      using found by simp
    obtain faction where
      read: "as_Factions fullFaction = Some faction"
      and rest: "init_loop factionList (InternalFunctions_update faction w) = Inr w'"
    proof (cases "as_Factions fullFaction")
      case None
      with step Cons.prems(1) show thesis by simp
    next
      case (Some faction)
      with step Cons.prems(1) that show thesis by simp
    qed
    from read obtain key where
      key: "obj_get fullFaction ''_id'' = VStr key" "faction_id faction = Some key"
      by (rule as_Factions_id)
    let ?w1 = "InternalFunctions_update faction w"
    have store1: "factions ?w1 = AList.update key faction (factions w)"
      and docs1: "db_Factions ?w1 = db_Factions w"
      using key by (simp_all add: InternalFunctions_update_def)
    define K where "K = {key. \<exists>d \<in> set (db_Factions w). obj_get d ''_id'' = VStr key}"
    have "store_inv (factions ?w1)"
      unfolding store1 using Cons.prems(2) key(2) by (rule store_inv_update)
    from Cons.IH [OF rest this]
    have inv: "store_inv (factions w')"
      and keys: "fst ` set (factions w') \<subseteq> fst ` set (AList.update key faction (factions w)) \<union> K"
      unfolding K_def store1 docs1 by simp_all
    have "fst ` set (AList.update key faction (factions w)) = {key} \<union> fst ` set (factions w)"
      by (rule dom_update)
    with keys have sub: "fst ` set (factions w') \<subseteq> ({key} \<union> fst ` set (factions w)) \<union> K"
      by simp
    have "key \<in> K"
      unfolding K_def using stored key(1) by blast
    with sub have "fst ` set (factions w') \<subseteq> fst ` set (factions w) \<union> K"
      by auto
    with inv show ?thesis unfolding K_def by simp
  qed
qed

lemma remove_store: "factions (snd (remove fid w)) = AList.delete fid (factions w)"
proof (cases "map_of (factions w) fid")
  case None
  then have "fid \<notin> fst ` set (factions w)"
    by (simp add: map_of_eq_None_iff)
  then have "AList.delete fid (factions w) = factions w"
    by (force simp: AList.delete_eq filter_id_conv)
  with None show ?thesis by (simp add: remove_def)
next
  case (Some faction)
  then show ?thesis
    by (simp add: remove_def Let_def remove_vehicles_frame remove_members_frame)
qed

text \<open>
  \<open>init\<close> returns whenever the documents of the collection can be read at the type
  \<open>Factions\<close>, as the documents that \<open>create\<close> stores can.
\<close>

lemma init_loop_returns:
  assumes "list_all (\<lambda>d. as_Factions d \<noteq> None) (db_Factions w)"
  shows "\<exists>w'. init_loop factionList w = Inr w'"
  using assms
proof (induction factionList arbitrary: w)
  case Nil
  then show ?case by simp
next
  case (Cons d factionList)
  show ?case
  proof (cases "db_getMany_Factions [(''_id'', obj_get d ''_id'')] w")
    case Nil
    then have "init_loop (d # factionList) w = init_loop factionList w" by simp
    with Cons.IH [OF Cons.prems] show ?thesis by simp
  next
    case found: (Cons fullFaction others)
    then have "fullFaction \<in> set (db_getMany_Factions [(''_id'', obj_get d ''_id'')] w)"
      by simp
    then have "fullFaction \<in> set (db_Factions w)"
      by (simp add: db_getMany_Factions_def)
    with Cons.prems obtain faction where read: "as_Factions fullFaction = Some faction"
      by (auto simp: list_all_iff)
    have "list_all (\<lambda>d. as_Factions d \<noteq> None)
            (db_Factions (InternalFunctions_update faction w))"
      using Cons.prems by (simp add: InternalFunctions_update_def)
    from Cons.IH [OF this] found read show ?thesis by simp
  qed
qed

lemma init_returns:
  assumes "list_all (\<lambda>d. as_Factions d \<noteq> None) (db_Factions w)"
  shows "\<exists>w'. init w = Inr w'"
  using init_loop_returns [OF assms, of "db_getAll_Factions w"] by (simp add: init_def Let_def)

lemma as_Factions_created:
  "as_Factions ((''_id'', VStr key) # fields_of faction) = Some (faction\<lparr>faction_id := Some key\<rparr>)"
  by (simp add: as_Factions_def fields_of_def own_field_def)

text \<open>
  Claim C9. \<open>init\<close>, \<open>create\<close> and \<open>remove\<close> keep the invariant of the registry
  store: its keys are unique and each key is the \<open>_id\<close> of the record stored under
  it. This holds for every way out of \<open>create\<close>, the rejection at line 96
  included. The keys come from the persistence layer: a key that \<open>init\<close> adds is the
  \<open>_id\<close> of a document of the collection \<open>Factions\<close>, and the key that a successful
  \<open>create\<close> adds is the identifier \<open>db.create\<close> answered, which is also the
  \<open>_id\<close> of the record and the response of \<open>create\<close>.
\<close>

theorem store_invariant_preserved:
  assumes "store_inv (factions w)"
  shows "(\<forall>w'. init w = Inr w' \<longrightarrow>
            store_inv (factions w')
          \<and> fst ` set (factions w')
              \<subseteq> fst ` set (factions w)
                \<union> {key. \<exists>d \<in> set (db_Factions w). obj_get d ''_id'' = VStr key})
     \<and> store_inv
         (factions (snd (create DefaultRanks sha256Random inserted character_update
                           characterOwnerID core w)))
     \<and> (\<forall>r. fst (create DefaultRanks sha256Random inserted character_update
                     characterOwnerID core w) = Inr r
              \<and> status r \<longrightarrow>
            inserted = Some (response r)
          \<and> (\<exists>faction.
                findFactionById (response r)
                  (snd (create DefaultRanks sha256Random inserted character_update
                          characterOwnerID core w))
                  = Some faction
              \<and> faction_id faction = Some (response r)))
     \<and> store_inv (factions (snd (remove fid w)))"
proof (intro conjI allI impI)
  fix w'
  assume run: "init w = Inr w'"
  have "store_inv (factions w')
     \<and> fst ` set (factions w')
         \<subseteq> fst ` set (factions w) \<union> {key. \<exists>d \<in> set (db_Factions w). obj_get d ''_id'' = VStr key}"
  proof (cases "db_Factions w = []")
    case True
    with run have "w' = w" by (simp add: init_def db_getAll_Factions_def)
    with assms show ?thesis by auto
  next
    case False
    with run have "init_loop (db_Factions w) w = Inr w'"
      by (simp add: init_def db_getAll_Factions_def)
    from init_loop_store [OF this assms] show ?thesis .
  qed
  then show "store_inv (factions w')"
    and "fst ` set (factions w')
         \<subseteq> fst ` set (factions w) \<union> {key. \<exists>d \<in> set (db_Factions w). obj_get d ''_id'' = VStr key}"
    by simp_all
next
  let ?run = "create DefaultRanks sha256Random inserted character_update characterOwnerID core w"
  have founded: "store_inv (factions (founded factionId faction w))" for factionId faction
    unfolding founded_frame using assms by (rule store_inv_update) simp
  show "store_inv (factions (snd ?run))"
  proof (cases rule: create_cases [where DefaultRanks = DefaultRanks
      and sha256Random = sha256Random and inserted = inserted
      and character_update = character_update and characterOwnerID = characterOwnerID
      and core = core and w = w])
    case (rejected name character others firstRank ranks factionId)
    then show ?thesis using founded by simp
  next
    case (created name character others firstRank ranks factionId)
    then show ?thesis using founded by (simp add: db_update_Characters_def)
  qed (use assms in simp_all)
next
  fix r
  let ?run = "create DefaultRanks sha256Random inserted character_update characterOwnerID core w"
  assume "fst ?run = Inr r \<and> status r"
  then have res: "fst ?run = Inr r" and ok: "status r" by simp_all
  obtain w' where run: "?run = (Inr r, w')" using res by (cases ?run) auto
  from run ok show "inserted = Some (response r)"
    by (rule create_success)
  from run ok
  have "\<exists>faction. findFactionById (response r) w' = Some faction
          \<and> faction_id faction = Some (response r)"
  proof (rule create_success)
    fix character :: Character and firstRank :: Grades and ranks :: "Grades list"
    assume "factions w' = factions (founded (response r)
        (new_faction characterOwnerID character core firstRank (firstRank # ranks)) w)"
    then show ?thesis
      by (simp add: findFactionById_def founded_frame update_conv')
  qed
  with run show "\<exists>faction. findFactionById (response r) (snd ?run) = Some faction
          \<and> faction_id faction = Some (response r)"
    by simp
next
  show "store_inv (factions (snd (remove fid w)))"
    unfolding remove_store using assms by (rule store_inv_delete)
qed

text \<open>
  In the small world: \<open>init\<close> reloads Red Team under its key, Dee founds Lost MC
  and the store then has the keys \<open>f1\<close> and \<open>f2\<close>, and \<open>remove\<close> of Red Team
  leaves the store empty; the invariant holds each time.
\<close>

theorem store_invariant_preserved_witness:
  "store_inv (factions world0)
   \<and> (case init world0 of
         Inr w' \<Rightarrow> store_inv (factions w') \<and> map fst (factions w') = [''f1'']
       | Inl e \<Rightarrow> False)
   \<and> store_inv (factions (snd (create [\<lparr>gradeId = [], rank = ''Boss''\<rparr>]
          (\<lambda>n g. ''h'' @ rank g) (Some ''f2'') Db_stores 4
          \<lparr>core_factionName = Some ''Lost MC'', core_bank = None\<rparr> world0)))
   \<and> map fst (factions (snd (create [\<lparr>gradeId = [], rank = ''Boss''\<rparr>]
          (\<lambda>n g. ''h'' @ rank g) (Some ''f2'') Db_stores 4
          \<lparr>core_factionName = Some ''Lost MC'', core_bank = None\<rparr> world0)))
       = [''f1'', ''f2'']
   \<and> store_inv (factions (snd (remove ''f1'' world0)))
   \<and> factions (snd (remove ''f1'' world0)) = []"
proof -
  have inv0: "store_inv (factions world0)" by code_simp
  note kept = store_invariant_preserved [OF inv0,
      of "[\<lparr>gradeId = [], rank = ''Boss''\<rparr>]" "\<lambda>n g. ''h'' @ rank g" "Some ''f2''" Db_stores 4
        "\<lparr>core_factionName = Some ''Lost MC'', core_bank = None\<rparr>" "''f1''"]
  have loaded: "case init world0 of
         Inr w' \<Rightarrow> map fst (factions w') = [''f1'']
       | Inl e \<Rightarrow> False"
    by code_simp
  have init: "case init world0 of
         Inr w' \<Rightarrow> store_inv (factions w') \<and> map fst (factions w') = [''f1'']
       | Inl e \<Rightarrow> False"
  proof (cases "init world0")
    case (Inl e)
    with loaded show ?thesis by simp
  next
    case (Inr w')
    with kept have "store_inv (factions w')" by blast
    with loaded Inr show ?thesis by simp
  qed
  have created: "map fst (factions (snd (create [\<lparr>gradeId = [], rank = ''Boss''\<rparr>]
          (\<lambda>n g. ''h'' @ rank g) (Some ''f2'') Db_stores 4
          \<lparr>core_factionName = Some ''Lost MC'', core_bank = None\<rparr> world0)))
       = [''f1'', ''f2'']"
    by code_simp
  have removed: "factions (snd (remove ''f1'' world0)) = []"
    by code_simp
  from inv0 init kept created removed show ?thesis by blast
qed

subsection \<open>remove\<close>

text \<open>\<open>remove\<close> never writes to the collection \<open>Factions\<close>, and it evicts the faction.\<close>

lemma remove_keeps_Factions_collection: "db_Factions (snd (remove fid w)) = db_Factions w"
  by (simp add: remove_def Let_def remove_vehicles_frame remove_members_frame
      split: option.splits)

lemma remove_evicts: "findFactionById fid (snd (remove fid w)) = None"
  by (simp add: findFactionById_def remove_store delete_conv')

text \<open>
  A patch whose \<open>_id\<close> is a number addresses no character document: the documents'
  \<open>_id\<close> are strings.
\<close>

lemma db_update_Characters_number:
  "db_Characters (db_update_Characters (VNum n) set_fields w) = db_Characters w"
  by (simp add: db_update_Characters_def)

text \<open>
  Claim C1 says that a successful \<open>remove\<close> deletes the faction's own document from
  the collection \<open>Factions\<close>. The source deletes the documents of the faction's
  vehicles and never the faction's. In the small world, \<open>remove\<close> of Red Team
  answers success and evicts the faction, the vehicle's document is gone, and the
  faction's document is still stored; the next \<open>init\<close> puts the faction back into
  the registry store.
\<close>

theorem remove_leaves_faction_document:
  "fst (remove ''f1'' world0) = success ''Deleted faction successfully''
   \<and> findFactionById ''f1'' (snd (remove ''f1'' world0)) = None
   \<and> db_Vehicles (snd (remove ''f1'' world0)) = []
   \<and> db_Factions (snd (remove ''f1'' world0)) = [red_team_document]
   \<and> (case init (snd (remove ''f1'' world0)) of
         Inr w \<Rightarrow> findFactionById ''f1'' w = Some red_team
       | Inl e \<Rightarrow> False)"
  by code_simp

text \<open>
  Claim C2 says that after \<open>remove\<close> every character that referenced the faction has
  its \<open>faction\<close> field cleared in persistent storage, online or offline. The source
  writes the cleared field for a connected character only (\<open>character.set\<close>); for an
  offline character it clears the fetched copy (\<open>member.faction = null\<close>) and never
  stores it. In the small world Bob, who is connected, is detached, and the documents of
  Ann and Cy, who are offline, still reference the removed faction.
\<close>

theorem remove_leaves_offline_members_attached:
  "fst (remove ''f1'' world0) = success ''Deleted faction successfully''
   \<and> findFactionById ''f1'' (snd (remove ''f1'' world0)) = None
   \<and> db_getMany_Characters (By_faction (Some ''f1'')) world0 = [ann, bob, cy]
   \<and> byCharacter (character_doc_id ann) world0 = None
   \<and> byCharacter (character_doc_id cy) world0 = None
   \<and> db_getMany_Characters (By_faction (Some ''f1'')) (snd (remove ''f1'' world0)) = [ann, cy]
   \<and> map character_faction (db_getMany_Characters (By_id 8) (snd (remove ''f1'' world0)))
       = [Some []]"
  by code_simp

text \<open>
  Claim C3 says that the persisted \<open>bank\<close> of an offline owner grows by the
  faction's balance. The source addresses the write by \<open>_id: ownerIdentifier\<close>, the
  owner's character number, where the document's \<open>_id\<close> is \<open>member._id\<close>; the write
  reaches no document. In the small world Ann, the owner, is offline with 50 in the bank
  and the faction holds 1000: after \<open>remove\<close> her document still says 50. When Ann
  is connected instead, her currency balance does grow by 1000.
\<close>

theorem remove_offline_owner_not_credited:
  "fst (remove ''f1'' world0) = success ''Deleted faction successfully''
   \<and> bank red_team = 1000
   \<and> find isOwner (map snd (members red_team)) = Some (snd (hd (members red_team)))
   \<and> member_id (snd (hd (members red_team))) = character_id ann
   \<and> byCharacter (character_doc_id ann) world0 = None
   \<and> map character_bank (db_getMany_Characters (By_id 7) world0) = [50]
   \<and> map character_bank (db_getMany_Characters (By_id 7) (snd (remove ''f1'' world0))) = [50]
   \<and> map currency_bank
        (players (snd (remove ''f1''
           (world0\<lparr>players :=
              [\<lparr>character_document = ann, isValid = True, currency_bank = 50\<rparr>]\<rparr>))))
       = [1050]"
  by code_simp

end
